theory Spec2Isabelle
  imports Complex_Main
begin

section \<open>JavaScript values\<close>

text \<open>
  The values that travel through \<^verbatim>\<open>server.js\<close>: request bodies, collaborator results,
  thrown values and response bodies. An object is an association list with distinct keys,
  in insertion order (\<^verbatim>\<open>Object.keys\<close> reads the order). \<open>Error m c\<close> is an \<^verbatim>\<open>Error\<close> object
  with the message \<open>m\<close> and, for a network error, the code \<open>c\<close>. \<open>JBuiltin k\<close> is the member
  \<open>k\<close> that every plain object inherits from \<^verbatim>\<open>Object.prototype\<close>: a function or an object,
  hence truthy and not a string.
\<close>

datatype jsval =
    JUndefined
  | JNull
  | JBool bool
  | JNum rat
  | JStr string
  | JArr "jsval list"
  | JObj "(string \<times> jsval) list"
  | JBuiltin string
  | Error string "string option"

type_synonym jsobject = "(string \<times> jsval) list"

text \<open>How an evaluation ends: with a value, or with a thrown value, which can be any value.\<close>

datatype outcome = Returned jsval | Thrown jsval

fun truthy :: "jsval \<Rightarrow> bool" where
  "truthy JUndefined = False"
| "truthy JNull = False"
| "truthy (JBool b) = b"
| "truthy (JNum n) = (n \<noteq> 0)"
| "truthy (JStr s) = (s \<noteq> [])"
| "truthy (JArr xs) = True"
| "truthy (JObj kvs) = True"
| "truthy (JBuiltin k) = True"
| "truthy (Error m c) = True"

fun is_string :: "jsval \<Rightarrow> bool" where
  "is_string (JStr s) = True"
| "is_string v = False"

definition object_prototype_keys :: "string list" where
  "object_prototype_keys =
     [''constructor'', ''__defineGetter__'', ''__defineSetter__'', ''hasOwnProperty'',
      ''__lookupGetter__'', ''__lookupSetter__'', ''isPrototypeOf'',
      ''propertyIsEnumerable'', ''toString'', ''valueOf'', ''__proto__'',
      ''toLocaleString'']"

text \<open>\<^verbatim>\<open>obj[k]\<close> on a plain object: the own property, else the inherited member, else \<^verbatim>\<open>undefined\<close>.\<close>

definition get_field :: "jsobject \<Rightarrow> string \<Rightarrow> jsval" where
  "get_field obj k =
     (case map_of obj k of
        Some v \<Rightarrow> v
      | None \<Rightarrow> if k \<in> set object_prototype_keys then JBuiltin k else JUndefined)"

text \<open>
  \<^verbatim>\<open>v[k]\<close> on any value. Reading a member of \<^verbatim>\<open>undefined\<close> or \<^verbatim>\<open>null\<close> throws a TypeError.
  Of arrays and strings the handlers read \<^verbatim>\<open>length\<close> only, of an \<^verbatim>\<open>Error\<close> object
  \<^verbatim>\<open>message\<close> and \<^verbatim>\<open>code\<close>.
\<close>

fun get_member :: "jsval \<Rightarrow> string \<Rightarrow> outcome" where
  "get_member JUndefined k =
     Thrown (Error (''Cannot read properties of undefined (reading '' @ [CHR 0x27] @ k @ [CHR 0x27] @ '')'') None)"
| "get_member JNull k =
     Thrown (Error (''Cannot read properties of null (reading '' @ [CHR 0x27] @ k @ [CHR 0x27] @ '')'') None)"
| "get_member (JObj obj) k = Returned (get_field obj k)"
| "get_member (JArr xs) k =
     Returned (if k = ''length'' then JNum (of_nat (length xs)) else JUndefined)"
| "get_member (JStr s) k =
     Returned (if k = ''length'' then JNum (of_nat (length s)) else JUndefined)"
| "get_member (Error m c) k =
     Returned (if k = ''message'' then JStr m
               else if k = ''code'' then (case c of None \<Rightarrow> JUndefined | Some s \<Rightarrow> JStr s)
               else JUndefined)"
| "get_member v k = Returned JUndefined"

text \<open>
  \<^verbatim>\<open>obj[k] = v\<close> on a plain object. Assigning to \<^verbatim>\<open>__proto__\<close> goes to the inherited setter
  and leaves the own properties as they are.
\<close>

fun update_field :: "jsobject \<Rightarrow> string \<Rightarrow> jsval \<Rightarrow> jsobject" where
  "update_field [] k v = [(k, v)]"
| "update_field ((k', v') # obj) k v =
     (if k' = k then (k, v) # obj else (k', v') # update_field obj k v)"

definition set_field :: "jsobject \<Rightarrow> string \<Rightarrow> jsval \<Rightarrow> jsobject" where
  "set_field obj k v = (if k = ''__proto__'' then obj else update_field obj k v)"

definition object_keys :: "jsobject \<Rightarrow> jsval" where
  "object_keys obj = JArr (map (\<lambda>kv. JStr (fst kv)) obj)"

subsection \<open>Strings\<close>

fun starts_with :: "string \<Rightarrow> string \<Rightarrow> bool" where
  "starts_with s [] = True"
| "starts_with [] (c # cs) = False"
| "starts_with (d # ds) (c # cs) = (d = c \<and> starts_with ds cs)"

text \<open>\<^verbatim>\<open>s.includes(sub)\<close>.\<close>

fun str_includes :: "string \<Rightarrow> string \<Rightarrow> bool" where
  "str_includes [] sub = (sub = [])"
| "str_includes (c # cs) sub = (starts_with (c # cs) sub \<or> str_includes cs sub)"

text \<open>
  \<^verbatim>\<open>v.includes(sub)\<close> on any value, for a string \<open>sub\<close>. A string is searched for the
  substring and an array for the element; \<^verbatim>\<open>undefined\<close> and \<^verbatim>\<open>null\<close> have no members, and
  no other value here has the method: the call throws a TypeError.
\<close>

fun js_includes :: "jsval \<Rightarrow> string \<Rightarrow> jsval + bool" where
  "js_includes (JStr s) sub = Inr (str_includes s sub)"
| "js_includes (JArr xs) sub = Inr (JStr sub \<in> set xs)"
| "js_includes JUndefined sub =
     Inl (Error (''Cannot read properties of undefined (reading '' @ [CHR 0x27] @ ''includes'' @ [CHR 0x27] @ '')'') None)"
| "js_includes JNull sub =
     Inl (Error (''Cannot read properties of null (reading '' @ [CHR 0x27] @ ''includes'' @ [CHR 0x27] @ '')'') None)"
| "js_includes v sub = Inl (Error ''err.message.includes is not a function'' None)"

text \<open>\<^verbatim>\<open>xs.join(sep)\<close>.\<close>

fun join :: "string \<Rightarrow> string list \<Rightarrow> string" where
  "join sep [] = []"
| "join sep [x] = x"
| "join sep (x # y # ys) = x @ sep @ join sep (y # ys)"

definition digit_char :: "nat \<Rightarrow> char" where
  "digit_char d = ''0123456789'' ! d"

text \<open>The decimal rendering of a number inside a template string.\<close>

function show_nat :: "nat \<Rightarrow> string" where
  "show_nat n = (if n < 10 then [digit_char n] else show_nat (n div 10) @ [digit_char (n mod 10)])"
  by pat_completeness auto
termination
  by (relation "measure (\<lambda>n. n)") auto

declare show_nat.simps [simp del]

section \<open>Configuration\<close>

text \<open>
  \<^verbatim>\<open>process.env.X || default\<close>: an unset or empty variable gives the default.
\<close>

definition env_or :: "(string \<rightharpoonup> string) \<Rightarrow> string \<Rightarrow> string \<Rightarrow> string" where
  "env_or env k d = (case env k of None \<Rightarrow> d | Some v \<Rightarrow> if v = [] then d else v)"

record field_mappings =
  candidate_name :: string
  candidate_sector :: string
  candidate_skills :: string
  candidate_experience :: string
  candidate_education :: string
  candidate_preferences :: string
  candidate_id :: string
  dbMethods_getDropdowns :: string
  dbMethods_saveCandidate :: string
  dbMethods_fetchCareers :: string
  dbMethods_updateRecommendations :: string
  careerFilter_sector :: string
  aiPayload_candidate :: string
  aiPayload_careers :: string

definition FIELD_MAPPINGS :: "(string \<rightharpoonup> string) \<Rightarrow> field_mappings" where
  "FIELD_MAPPINGS env =
     \<lparr> candidate_name = env_or env ''CANDIDATE_NAME_FIELD'' ''name'',
       candidate_sector = env_or env ''CANDIDATE_SECTOR_FIELD'' ''sector'',
       candidate_skills = env_or env ''CANDIDATE_SKILLS_FIELD'' ''skills'',
       candidate_experience = env_or env ''CANDIDATE_EXPERIENCE_FIELD'' ''experience'',
       candidate_education = env_or env ''CANDIDATE_EDUCATION_FIELD'' ''education'',
       candidate_preferences = env_or env ''CANDIDATE_PREFERENCES_FIELD'' ''preferences'',
       candidate_id = env_or env ''CANDIDATE_ID_FIELD'' ''id'',
       dbMethods_getDropdowns = env_or env ''DB_GET_DROPDOWNS_METHOD'' ''getDropdowns'',
       dbMethods_saveCandidate = env_or env ''DB_SAVE_CANDIDATE_METHOD'' ''saveCandidate'',
       dbMethods_fetchCareers = env_or env ''DB_FETCH_CAREERS_METHOD'' ''fetchCareers'',
       dbMethods_updateRecommendations =
         env_or env ''DB_UPDATE_RECS_METHOD'' ''updateCandidateRecommendations'',
       careerFilter_sector = env_or env ''CAREER_FILTER_FIELD'' ''sector'',
       aiPayload_candidate = env_or env ''AI_CANDIDATE_KEY'' ''candidate'',
       aiPayload_careers = env_or env ''AI_CAREERS_KEY'' ''careers'' \<rparr>"

text \<open>
  The constants fixed at start-up. The two timeouts are positive numbers of milliseconds
  (\<^verbatim>\<open>parseInt(...) || 5000\<close> is never \<^verbatim>\<open>0\<close> or \<^verbatim>\<open>NaN\<close>); \<open>NODE_ENV\<close> is the variable of
  that name, read at each failure.
\<close>

record settings =
  AI_SERVICE_URL :: string
  DB_CONNECTION_TIMEOUT :: nat
  AI_SERVICE_TIMEOUT :: nat
  mappings :: field_mappings
  NODE_ENV :: "string option"

definition default_settings :: settings where
  "default_settings =
     \<lparr> AI_SERVICE_URL = ''http://localhost:5001/recommend'',
       DB_CONNECTION_TIMEOUT = 5000,
       AI_SERVICE_TIMEOUT = 20000,
       mappings = FIELD_MAPPINGS Map.empty,
       NODE_ENV = None \<rparr>"

section \<open>Validation\<close>

definition createCandidateSchema :: "field_mappings \<Rightarrow> string list \<times> string list" where
  "createCandidateSchema fm =
     ([candidate_name fm, candidate_sector fm],
      [candidate_skills fm, candidate_experience fm, candidate_education fm,
       candidate_preferences fm])"

definition schema_json :: "field_mappings \<Rightarrow> jsval" where
  "schema_json fm =
     JObj [(''required'', JArr (map JStr (fst (createCandidateSchema fm)))),
           (''optional'', JArr (map JStr (snd (createCandidateSchema fm))))]"

definition validateCandidate :: "field_mappings \<Rightarrow> jsobject \<Rightarrow> string list" where
  "validateCandidate fm candidate =
     (let required_errors =
            concat (map (\<lambda>field. if \<not> truthy (get_field candidate field)
                                  then [''Missing required field: '' @ field] else [])
                        (fst (createCandidateSchema fm)));
          nameField = candidate_name fm
      in if truthy (get_field candidate nameField) \<and> \<not> is_string (get_field candidate nameField)
         then required_errors @ [nameField @ '' must be a string'']
         else required_errors)"

section \<open>Collaborators, time and effects\<close>

text \<open>
  What a handler does to the outside is a sequence of events: a call of a method of the
  storage module with its arguments, a POST through the HTTP client (URL, payload,
  the \<^verbatim>\<open>timeout\<close> option, headers), and a pause of the retry wrapper. The text that the
  handlers write to the console is left out, and so is the conversion of a logged value
  to text; what is kept is the read of a member of a thrown value that a console line
  makes (\<^verbatim>\<open>error.message\<close>), since that read throws for \<^verbatim>\<open>undefined\<close> and \<^verbatim>\<open>null\<close>.
\<close>

datatype event =
    DbCall string "jsval list"
  | HttpPost string jsval nat "(string \<times> string) list"
  | Delay nat

text \<open>
  A promise settles some milliseconds after it was created, fulfilled or rejected, or it
  never settles. A call that throws at once, or returns a plain value, is a promise that
  settles after \<open>0\<close> ms.
\<close>

datatype promise = Settles nat outcome | Never

text \<open>
  The collaborators. \<open>dbService\<close> is \<^verbatim>\<open>require('./dbService')\<close>: \<open>None\<close> when the module
  cannot be loaded, else which of its members are functions. \<open>respond\<close> is how a
  collaborator answers a call, given the events so far and the time of the call.

  The handler hands the candidate object itself to the storage module and reads it again
  later, so the storage module can write to it. \<open>touch\<close> is what the collaborators have
  made of the candidate object by the time the handler next reads it after a call, given
  the events before the call, the call, and the object as it was.
\<close>

record services =
  dbService :: "(string \<Rightarrow> bool) option"
  respond :: "event list \<Rightarrow> nat \<Rightarrow> event \<Rightarrow> promise"
  touch :: "event list \<Rightarrow> event \<Rightarrow> jsobject \<Rightarrow> jsobject"

text \<open>The clock, the events so far, and the candidate object that the collaborators share.\<close>

record world =
  now :: nat
  events :: "event list"
  candidate_object :: jsobject

definition invoke :: "services \<Rightarrow> event \<Rightarrow> world \<Rightarrow> promise \<times> world" where
  "invoke sv c w =
     (respond sv (events w) (now w) c,
      w\<lparr>events := events w @ [c],
        candidate_object := touch sv (events w) c (candidate_object w)\<rparr>)"

text \<open>\<^verbatim>\<open>await p\<close>: the clock moves to the moment \<open>p\<close> settles; \<open>None\<close> when it never does.\<close>

fun await :: "promise \<Rightarrow> world \<Rightarrow> outcome option \<times> world" where
  "await (Settles d r) w = (Some r, w\<lparr>now := now w + d\<rparr>)"
| "await Never w = (None, w)"

definition sleep :: "nat \<Rightarrow> world \<Rightarrow> world" where
  "sleep ms w = w\<lparr>now := now w + ms, events := events w @ [Delay ms]\<rparr>"

section \<open>Utility functions\<close>

definition timeout_error :: "string \<Rightarrow> nat \<Rightarrow> jsval" where
  "timeout_error operation timeoutMs =
     Error (operation @ '' timeout after '' @ show_nat timeoutMs @ ''ms'') None"

text \<open>
  \<^verbatim>\<open>Promise.race([promise, timer])\<close>: the race settles as the first of the two does. The
  promise was created before the timer, so it wins when both fall on the same millisecond.
  The losing promise is not cancelled; what it does later is not observed.
\<close>

definition withTimeout :: "promise \<Rightarrow> nat \<Rightarrow> string \<Rightarrow> promise" where
  "withTimeout p timeoutMs operation =
     (case p of
        Settles d r \<Rightarrow>
          if d \<le> timeoutMs then Settles d r
          else Settles timeoutMs (Thrown (timeout_error operation timeoutMs))
      | Never \<Rightarrow> Settles timeoutMs (Thrown (timeout_error operation timeoutMs)))"

type_synonym operation = "world \<Rightarrow> outcome option \<times> world"

text \<open>
  The loop of \<^verbatim>\<open>retryOperation\<close>, entered with the loop variable \<open>attempt\<close>. The \<^verbatim>\<open>catch\<close>
  first reads \<^verbatim>\<open>error.message\<close> for the console; when that read throws, the TypeError
  leaves the function. When the loop ends without a \<^verbatim>\<open>return\<close> the function returns
  \<^verbatim>\<open>undefined\<close>.
\<close>

function retry_loop :: "operation \<Rightarrow> nat \<Rightarrow> nat \<Rightarrow> nat \<Rightarrow> world \<Rightarrow> outcome option \<times> world" where
  "retry_loop operation maxRetries delay attempt w =
     (if attempt \<le> maxRetries then
        (case operation w of
           (None, w') \<Rightarrow> (None, w')
         | (Some (Returned v), w') \<Rightarrow> (Some (Returned v), w')
         | (Some (Thrown e), w') \<Rightarrow>
             (case get_member e ''message'' of
                Thrown te \<Rightarrow> (Some (Thrown te), w')
              | Returned m \<Rightarrow>
                  if attempt = maxRetries then (Some (Thrown e), w')
                  else retry_loop operation maxRetries delay (attempt + 1)
                         (sleep (delay * attempt) w')))
      else (Some (Returned JUndefined), w))"
  by pat_completeness auto
termination
  by (relation "measure (\<lambda>(operation, maxRetries, delay, attempt, w). Suc maxRetries - attempt)") auto

declare retry_loop.simps [simp del]

definition retryOperation :: "operation \<Rightarrow> nat \<Rightarrow> nat \<Rightarrow> operation" where
  "retryOperation operation maxRetries delay = retry_loop operation maxRetries delay 1"

section \<open>The handlers\<close>

record response =
  status :: nat
  body :: jsval

text \<open>How a \<^verbatim>\<open>try\<close> block ends: a response was sent, a thrown value reached \<^verbatim>\<open>catch\<close>, or an \<^verbatim>\<open>await\<close> never came back.\<close>

datatype attempt = Responded response | Raised jsval | Stuck

text \<open>
  How a handler ends: it has sent a response, or it throws (its \<^verbatim>\<open>catch\<close> block threw, and
  the handler has sent no response), or it waits for ever.
\<close>

datatype reply = Answered response | Threw jsval | Hangs

definition js_or :: "jsval \<Rightarrow> jsval \<Rightarrow> jsval" where
  "js_or a b = (if truthy a then a else b)"

definition validation_response :: "field_mappings \<Rightarrow> string list \<Rightarrow> response" where
  "validation_response fm validationErrors =
     \<lparr> status = 400,
       body = JObj [(''success'', JBool False),
                    (''error'', JStr ''Validation failed''),
                    (''details'', JArr (map JStr validationErrors)),
                    (''expectedFields'', schema_json fm)] \<rparr>"

text \<open>One attempt of step 1: the candidate object is handed to the save method.\<close>

definition save_operation :: "settings \<Rightarrow> services \<Rightarrow> operation" where
  "save_operation st sv w =
     (case invoke sv (DbCall (dbMethods_saveCandidate (mappings st)) [JObj (candidate_object w)]) w of
        (p, w1) \<Rightarrow> await (withTimeout p (DB_CONNECTION_TIMEOUT st) ''Save candidate'') w1)"

text \<open>The filter for the careers: an empty object, then the filter member is assigned.\<close>

definition careerFilter_of :: "field_mappings \<Rightarrow> jsobject \<Rightarrow> jsobject" where
  "careerFilter_of fm candidate =
     set_field [] (careerFilter_sector fm) (get_field candidate (candidate_sector fm))"

text \<open>The one attempt of step 2.\<close>

definition fetch_operation :: "settings \<Rightarrow> services \<Rightarrow> operation" where
  "fetch_operation st sv w =
     (case invoke sv (DbCall (dbMethods_fetchCareers (mappings st))
                        [JObj (careerFilter_of (mappings st) (candidate_object w))]) w of
        (p, w1) \<Rightarrow> await (withTimeout p (DB_CONNECTION_TIMEOUT st) ''Fetch careers'') w1)"

text \<open>
  The payload for the scoring service: an empty object, then its two members are
  assigned. It holds the candidate object itself, so what is sent is the candidate as it
  is when the request is made.
\<close>

definition aiPayload_of :: "field_mappings \<Rightarrow> jsobject \<Rightarrow> jsval list \<Rightarrow> jsobject" where
  "aiPayload_of fm candidate careers =
     set_field (set_field [] (aiPayload_candidate fm) (JObj candidate))
       (aiPayload_careers fm) (JArr careers)"

text \<open>One attempt of step 3.\<close>

definition scoring_operation :: "settings \<Rightarrow> services \<Rightarrow> jsval list \<Rightarrow> operation" where
  "scoring_operation st sv careers w =
     (case invoke sv (HttpPost (AI_SERVICE_URL st)
                        (JObj (aiPayload_of (mappings st) (candidate_object w) careers))
                        (AI_SERVICE_TIMEOUT st)
                        [(''Content-Type'', ''application/json''),
                         (''X-Request-ID'', ''rec-'' @ show_nat (now w))]) w of
        (p, w1) \<Rightarrow>
          (case await p w1 of
             (None, w2) \<Rightarrow> (None, w2)
           | (Some (Thrown e), w2) \<Rightarrow> (Some (Thrown e), w2)
           | (Some (Returned response), w2) \<Rightarrow>
               (case get_member response ''data'' of
                  Thrown e \<Rightarrow> (Some (Thrown e), w2)
                | Returned d \<Rightarrow>
                    if \<not> truthy d
                    then (Some (Thrown (Error ''Empty response from AI service'' None)), w2)
                    else (Some (Returned response), w2))))"

text \<open>The one attempt of step 4.\<close>

definition update_operation :: "settings \<Rightarrow> services \<Rightarrow> jsval \<Rightarrow> jsval \<Rightarrow> operation" where
  "update_operation st sv candidateId recommendations w =
     (case invoke sv (DbCall (dbMethods_updateRecommendations (mappings st))
                        [candidateId, recommendations]) w of
        (p, w1) \<Rightarrow> await (withTimeout p (DB_CONNECTION_TIMEOUT st) ''Update recommendations'') w1)"

definition success_response ::
  "settings \<Rightarrow> jsobject \<Rightarrow> jsval list \<Rightarrow> jsval \<Rightarrow> jsval \<Rightarrow> jsval \<Rightarrow> nat \<Rightarrow> response" where
  "success_response st candidate careers candidateId recommendations recLength processingTime =
     \<lparr> status = 200,
       body = JObj [(''success'', JBool True),
                    (''candidateId'', candidateId),
                    (''recommendations'', recommendations),
                    (''processingTime'', JNum (of_nat processingTime)),
                    (''metadata'',
                       JObj [(''careersAnalyzed'', JNum (of_nat (length careers))),
                             (''recommendationsGenerated'', js_or recLength (JNum 0)),
                             (''fieldsUsed'',
                                JObj [(''candidateFields'', object_keys candidate),
                                      (''filterField'', JStr (careerFilter_sector (mappings st))),
                                      (''aiPayloadStructure'',
                                         object_keys (aiPayload_of (mappings st) candidate careers))])])] \<rparr>"

text \<open>Step 4 and step 5: save the recommendations, then answer.\<close>

definition persist_stage ::
  "settings \<Rightarrow> services \<Rightarrow> nat \<Rightarrow> jsval list \<Rightarrow> jsval \<Rightarrow> jsval \<Rightarrow> jsval \<Rightarrow>
   world \<Rightarrow> attempt \<times> world" where
  "persist_stage st sv startTime careers candidateId recommendations recLength w =
     (case update_operation st sv candidateId recommendations w of
        (None, w2) \<Rightarrow> (Stuck, w2)
      | (Some (Thrown e), w2) \<Rightarrow> (Raised e, w2)
      | (Some (Returned u), w2) \<Rightarrow>
          (Responded (success_response st (candidate_object w2) careers candidateId
                        recommendations recLength (now w2 - startTime)), w2))"

text \<open>Step 3: call the scoring service, in two attempts at most.\<close>

definition scoring_stage ::
  "settings \<Rightarrow> services \<Rightarrow> nat \<Rightarrow> jsval list \<Rightarrow> jsval \<Rightarrow> world \<Rightarrow> attempt \<times> world" where
  "scoring_stage st sv startTime careers candidateId w =
     (case retryOperation (scoring_operation st sv careers) 2 2000 w of
        (None, w1) \<Rightarrow> (Stuck, w1)
      | (Some (Thrown e), w1) \<Rightarrow> (Raised e, w1)
      | (Some (Returned aiResponse), w1) \<Rightarrow>
          (case get_member aiResponse ''data'' of
             Thrown e \<Rightarrow> (Raised e, w1)
           | Returned recommendations \<Rightarrow>
               (case get_member recommendations ''length'' of
                  Thrown e \<Rightarrow> (Raised e, w1)
                | Returned recLength \<Rightarrow>
                    persist_stage st sv startTime careers candidateId
                      recommendations recLength w1)))"

text \<open>Step 2: fetch the careers of the candidate's sector.\<close>

definition fetch_stage ::
  "settings \<Rightarrow> services \<Rightarrow> nat \<Rightarrow> jsval \<Rightarrow> world \<Rightarrow> attempt \<times> world" where
  "fetch_stage st sv startTime candidateId w =
     (case fetch_operation st sv w of
        (None, w2) \<Rightarrow> (Stuck, w2)
      | (Some (Thrown e), w2) \<Rightarrow> (Raised e, w2)
      | (Some (Returned careers), w2) \<Rightarrow>
          (case careers of
             JArr cs \<Rightarrow> scoring_stage st sv startTime cs candidateId w2
           | _ \<Rightarrow> (Raised (Error ''Invalid careers response - expected array'' None), w2)))"

definition requiredMethods :: "field_mappings \<Rightarrow> string list" where
  "requiredMethods fm =
     [dbMethods_getDropdowns fm, dbMethods_saveCandidate fm, dbMethods_fetchCareers fm,
      dbMethods_updateRecommendations fm]"

text \<open>
  The \<^verbatim>\<open>try\<close> block of \<^verbatim>\<open>/api/recommend\<close> after validation. The second component is the
  variable \<^verbatim>\<open>candidateId\<close> as the block leaves it. Step 1 saves the candidate, in two
  attempts at most; from then on the collaborators share the candidate object.
\<close>

definition recommend_try ::
  "settings \<Rightarrow> services \<Rightarrow> nat \<Rightarrow> jsobject \<Rightarrow> world \<Rightarrow> attempt \<times> jsval \<times> world" where
  "recommend_try st sv startTime candidate w =
     (case dbService sv of
        None \<Rightarrow>
          (Raised (Error ''Database service not found. Make sure dbService.js exists and exports the required methods.'' None),
           JNull, w)
      | Some db \<Rightarrow>
          (let missingMethods = filter (\<lambda>method. \<not> db method) (requiredMethods (mappings st))
           in if missingMethods \<noteq> []
              then (Raised (Error (''Database service missing methods: '' @ join '', '' missingMethods) None),
                    JNull, w)
              else (case retryOperation (save_operation st sv) 2 1000
                           (w\<lparr>candidate_object := candidate\<rparr>) of
                      (None, w1) \<Rightarrow> (Stuck, JNull, w1)
                    | (Some (Thrown e), w1) \<Rightarrow> (Raised e, JNull, w1)
                    | (Some (Returned candidateId), w1) \<Rightarrow>
                        (case fetch_stage st sv startTime candidateId w1 of
                           (r, w2) \<Rightarrow> (r, candidateId, w2)))))"

text \<open>
  The status that the \<^verbatim>\<open>catch\<close> block of \<^verbatim>\<open>/api/recommend\<close> computes. \<^verbatim>\<open>err.message.includes\<close>
  throws when the thrown value has no message that can be searched.
\<close>

definition statusCode_of :: "jsval \<Rightarrow> jsval + nat" where
  "statusCode_of err =
     (case get_member err ''message'' of
        Thrown te \<Rightarrow> Inl te
      | Returned m \<Rightarrow>
          (case js_includes m ''Validation failed'' of
             Inl te \<Rightarrow> Inl te
           | Inr validation \<Rightarrow>
               (case js_includes m ''timeout'' of
                  Inl te \<Rightarrow> Inl te
                | Inr timeout \<Rightarrow>
                    (case get_member err ''code'' of
                       Thrown te \<Rightarrow> Inl te
                     | Returned c \<Rightarrow>
                         Inr (let statusCode = 500;
                                  statusCode = (if validation then 400 else statusCode);
                                  statusCode = (if timeout then 408 else statusCode);
                                  statusCode = (if c = JStr ''ECONNREFUSED'' then 503 else statusCode)
                              in statusCode)))))"

text \<open>The failure response, given the status and the value of \<^verbatim>\<open>err.message\<close>.\<close>

definition failure_response :: "settings \<Rightarrow> nat \<Rightarrow> jsval \<Rightarrow> jsval \<Rightarrow> nat \<Rightarrow> response" where
  "failure_response st statusCode m candidateId processingTime =
     \<lparr> status = statusCode,
       body = JObj [(''success'', JBool False),
                    (''error'', JStr ''AI recommendation failed''),
                    (''candidateId'', candidateId),
                    (''processingTime'', JNum (of_nat processingTime)),
                    (''details'', if NODE_ENV st = Some ''development'' then m else JUndefined)] \<rparr>"

text \<open>
  The \<^verbatim>\<open>catch\<close> block of \<^verbatim>\<open>/api/recommend\<close>: the console line reads \<^verbatim>\<open>err.message\<close>, then the
  status is computed and the failure response sent.
\<close>

definition recommend_catch :: "settings \<Rightarrow> jsval \<Rightarrow> jsval \<Rightarrow> nat \<Rightarrow> reply" where
  "recommend_catch st err candidateId processingTime =
     (case get_member err ''message'' of
        Thrown te \<Rightarrow> Threw te
      | Returned m \<Rightarrow>
          (case statusCode_of err of
             Inl te \<Rightarrow> Threw te
           | Inr statusCode \<Rightarrow>
               Answered (failure_response st statusCode m candidateId processingTime)))"

text \<open>\<^verbatim>\<open>app.post('/api/recommend', ...)\<close>: how the handler ends, and the world it leaves.\<close>

definition recommend :: "settings \<Rightarrow> services \<Rightarrow> jsobject \<Rightarrow> world \<Rightarrow> reply \<times> world" where
  "recommend st sv candidateRaw w =
     (let startTime = now w;
          candidate = candidateRaw;
          validationErrors = validateCandidate (mappings st) candidate
      in if validationErrors \<noteq> []
         then (Answered (validation_response (mappings st) validationErrors), w)
         else (case recommend_try st sv startTime candidate w of
                 (Responded r, candidateId, w') \<Rightarrow> (Answered r, w')
               | (Stuck, candidateId, w') \<Rightarrow> (Hangs, w')
               | (Raised err, candidateId, w') \<Rightarrow>
                   (recommend_catch st err candidateId (now w' - startTime), w')))"




section \<open>The retry policy in the words of the specification\<close>

text \<open>
  "Delay before attempt \<open>k\<close> (\<open>k \<ge> 2\<close>) is \<open>baseDelayMs * (k - 1)\<close>": the world in which
  attempt \<open>k\<close> starts when the attempts before it have failed. Attempt \<open>1\<close> starts in the
  world of the call; attempt \<open>k\<close> starts \<open>baseDelayMs * (k - 1)\<close> ms after attempt \<open>k - 1\<close>
  has failed.
\<close>

fun spec_world_before_attempt :: "operation \<Rightarrow> nat \<Rightarrow> world \<Rightarrow> nat \<Rightarrow> world" where
  "spec_world_before_attempt operation baseDelayMs w 0 = w"
| "spec_world_before_attempt operation baseDelayMs w (Suc 0) = w"
| "spec_world_before_attempt operation baseDelayMs w (Suc (Suc j)) =
     sleep (baseDelayMs * (Suc (Suc j) - 1))
       (snd (operation (spec_world_before_attempt operation baseDelayMs w (Suc j))))"

text \<open>The timer of \<^verbatim>\<open>withTimeout\<close> fires before the wrapped promise settles.\<close>

fun timer_fires_first :: "promise \<Rightarrow> nat \<Rightarrow> bool" where
  "timer_fires_first (Settles d r) timeoutMs = (timeoutMs < d)"
| "timer_fires_first Never timeoutMs = True"

section \<open>Scenarios\<close>

definition all_methods :: "string \<Rightarrow> bool" where
  "all_methods m = (m \<in> set (requiredMethods (FIELD_MAPPINGS Map.empty)))"

definition ada :: jsobject where
  "ada = [(''name'', JStr ''Ada''), (''sector'', JStr ''tech'')]"

definition engineer_careers :: jsval where
  "engineer_careers = JArr [JObj [(''title'', JStr ''Engineer'')]]"

definition engineer_recommendations :: jsval where
  "engineer_recommendations =
     JArr [JObj [(''title'', JStr ''Engineer''), (''score'', JNum (9 / 10))]]"

definition w0 :: world where
  "w0 = \<lparr> now = 0, events = [], candidate_object = [] \<rparr>"

text \<open>The world when step 1 of a request for \<open>ada\<close> starts.\<close>

definition w_ada :: world where
  "w_ada = \<lparr> now = 0, events = [], candidate_object = ada \<rparr>"

fun is_save_call :: "event \<Rightarrow> bool" where
  "is_save_call (DbCall m args) = (m = ''saveCandidate'')"
| "is_save_call e = False"

text \<open>
  Collaborators that follow a script: the first \<open>save_failures\<close> calls of \<^verbatim>\<open>saveCandidate\<close>
  are rejected, the \<open>k\<close>-th of them with the value \<open>rejection k\<close>, and the later ones give
  the id \<^verbatim>\<open>c1\<close>; the other calls are answered as given.
\<close>

definition scripted_respond ::
  "(nat \<Rightarrow> jsval) \<Rightarrow> nat \<Rightarrow> promise \<Rightarrow> promise \<Rightarrow> promise \<Rightarrow> event list \<Rightarrow> nat \<Rightarrow> event \<Rightarrow> promise" where
  "scripted_respond rejection save_failures fetch_answer post_answer update_answer history t c =
     (case c of
        DbCall m args \<Rightarrow>
          if m = ''saveCandidate''
          then (if length (filter is_save_call history) < save_failures
                then Settles 40 (Thrown (rejection (length (filter is_save_call history))))
                else Settles 30 (Returned (JStr ''c1'')))
          else if m = ''fetchCareers'' then fetch_answer
          else update_answer
      | HttpPost url payload timeout headers \<Rightarrow> post_answer
      | Delay ms \<Rightarrow> Never)"

definition deadlock :: "nat \<Rightarrow> jsval" where
  "deadlock k = Error (''deadlock '' @ show_nat k) None"

definition rejects_undefined :: "nat \<Rightarrow> jsval" where
  "rejects_undefined k = JUndefined"

text \<open>A storage module that leaves the candidate object alone.\<close>

definition no_touch :: "event list \<Rightarrow> event \<Rightarrow> jsobject \<Rightarrow> jsobject" where
  "no_touch history c candidate = candidate"

text \<open>A storage module that writes the id into the candidate object that it is handed to save.\<close>

definition id_writing_touch :: "event list \<Rightarrow> event \<Rightarrow> jsobject \<Rightarrow> jsobject" where
  "id_writing_touch history c candidate =
     (if is_save_call c then set_field candidate ''id'' (JStr ''c1'') else candidate)"

definition scripted_services :: "nat \<Rightarrow> promise \<Rightarrow> promise \<Rightarrow> promise \<Rightarrow> services" where
  "scripted_services save_failures fetch_answer post_answer update_answer =
     \<lparr> dbService = Some all_methods,
       respond = scripted_respond deadlock save_failures fetch_answer post_answer update_answer,
       touch = no_touch \<rparr>"

definition fetch_ok :: promise where
  "fetch_ok = Settles 20 (Returned engineer_careers)"

definition post_ok :: promise where
  "post_ok = Settles 100 (Returned (JObj [(''status'', JNum 200), (''data'', engineer_recommendations)]))"

definition update_ok :: promise where
  "update_ok = Settles 10 (Returned JUndefined)"

text \<open>A storage module whose first call of \<^verbatim>\<open>saveCandidate\<close> is rejected with \<^verbatim>\<open>undefined\<close>.\<close>

definition undefined_rejecting_services :: services where
  "undefined_rejecting_services =
     \<lparr> dbService = Some all_methods,
       respond = scripted_respond rejects_undefined 1 fetch_ok post_ok update_ok,
       touch = no_touch \<rparr>"

definition id_writing_services :: services where
  "id_writing_services =
     \<lparr> dbService = Some all_methods,
       respond = scripted_respond deadlock 0 fetch_ok post_ok update_ok,
       touch = id_writing_touch \<rparr>"

text \<open>The settings when the variable \<^verbatim>\<open>CANDIDATE_SECTOR_FIELD\<close> is set to \<^verbatim>\<open>toString\<close>.\<close>

definition toString_settings :: settings where
  "toString_settings =
     default_settings\<lparr>mappings := FIELD_MAPPINGS [''CANDIDATE_SECTOR_FIELD'' \<mapsto> ''toString'']\<rparr>"

text \<open>Answers of collaborators that fail.\<close>

definition fetch_rejects_validation :: promise where
  "fetch_rejects_validation = Settles 5 (Thrown (Error ''Validation failed: unknown sector'' None))"

definition fetch_not_array :: promise where
  "fetch_not_array = Settles 20 (Returned (JObj [(''rows'', JArr [])]))"

definition post_refused :: promise where
  "post_refused =
     Settles 3 (Thrown (Error ''connect ECONNREFUSED 127.0.0.1:5001'' (Some ''ECONNREFUSED'')))"

text \<open>A storage module whose \<^verbatim>\<open>fetchCareers\<close> rejects with the string \<^verbatim>\<open>boom\<close>, not an \<^verbatim>\<open>Error\<close>.\<close>

definition fetch_rejects_string :: promise where
  "fetch_rejects_string = Settles 5 (Thrown (JStr ''boom''))"

text \<open>The bodies and the POST of the scenarios.\<close>

definition failure_body :: "jsval \<Rightarrow> nat \<Rightarrow> jsval" where
  "failure_body candidateId processingTime =
     JObj [(''success'', JBool False),
           (''error'', JStr ''AI recommendation failed''),
           (''candidateId'', candidateId),
           (''processingTime'', JNum (of_nat processingTime)),
           (''details'', JUndefined)]"

definition ada_post :: "nat \<Rightarrow> event" where
  "ada_post t =
     HttpPost ''http://localhost:5001/recommend''
       (JObj [(''candidate'', JObj ada), (''careers'', engineer_careers)]) 20000
       [(''Content-Type'', ''application/json''), (''X-Request-ID'', ''rec-'' @ show_nat t)]"

definition ada_success_body :: "nat \<Rightarrow> jsval" where
  "ada_success_body processingTime =
     JObj [(''success'', JBool True),
           (''candidateId'', JStr ''c1''),
           (''recommendations'', engineer_recommendations),
           (''processingTime'', JNum (of_nat processingTime)),
           (''metadata'',
              JObj [(''careersAnalyzed'', JNum 1),
                    (''recommendationsGenerated'', JNum 1),
                    (''fieldsUsed'',
                       JObj [(''candidateFields'', JArr [JStr ''name'', JStr ''sector'']),
                             (''filterField'', JStr ''sector''),
                             (''aiPayloadStructure'', JArr [JStr ''candidate'', JStr ''careers''])])])]"

section \<open>Notions of the claims\<close>


text \<open>Counting the calls in a sequence of events: those of a storage method, and the POSTs.\<close>

fun is_call_of :: "string \<Rightarrow> event \<Rightarrow> bool" where
  "is_call_of m (DbCall m' args) = (m' = m)"
| "is_call_of m e = False"

definition db_calls :: "string \<Rightarrow> event list \<Rightarrow> nat" where
  "db_calls m es = length (filter (is_call_of m) es)"

fun is_post :: "event \<Rightarrow> bool" where
  "is_post (HttpPost url payload timeout headers) = True"
| "is_post e = False"

definition posts :: "event list \<Rightarrow> nat" where
  "posts es = length (filter is_post es)"

text \<open>The events that a handler added, given the world before and the world after.\<close>

definition new_events :: "world \<Rightarrow> world \<Rightarrow> event list" where
  "new_events w w' = drop (length (events w)) (events w')"

text \<open>
  What the collaborators make of the candidate object over a sequence of events that
  follows the events \<open>history\<close>: each call is followed by its \<open>touch\<close>; a pause of the retry
  wrapper is no call.
\<close>

fun touched :: "services \<Rightarrow> event list \<Rightarrow> event \<Rightarrow> jsobject \<Rightarrow> jsobject" where
  "touched sv history (Delay ms) candidate = candidate"
| "touched sv history c candidate = touch sv history c candidate"

fun replay :: "services \<Rightarrow> event list \<Rightarrow> event list \<Rightarrow> jsobject \<Rightarrow> jsobject" where
  "replay sv history [] candidate = candidate"
| "replay sv history (e # es) candidate =
     replay sv (history @ [e]) es (touched sv history e candidate)"




text \<open>
  The events that one request may add: at most \<open>s\<close> calls of the save method, \<open>f\<close> of the
  fetch method, \<open>u\<close> of the update method and \<open>p\<close> POSTs.
\<close>

definition calls_within :: "settings \<Rightarrow> nat \<Rightarrow> nat \<Rightarrow> nat \<Rightarrow> nat \<Rightarrow> event list \<Rightarrow> bool" where
  "calls_within st s f p u es =
     (posts es \<le> p
      \<and> (\<forall>m. db_calls m es \<le>
                (if m = dbMethods_saveCandidate (mappings st) then s else 0)
              + (if m = dbMethods_fetchCareers (mappings st) then f else 0)
              + (if m = dbMethods_updateRecommendations (mappings st) then u else 0)))"

text \<open>
  Every POST in a sequence of events has the URL and the timeout of the settings and a
  payload made from the candidate object as the collaborators have left it by then.
\<close>

fun posts_carry :: "services \<Rightarrow> settings \<Rightarrow> event list \<Rightarrow> event list \<Rightarrow> jsobject \<Rightarrow> bool" where
  "posts_carry sv st history [] candidate = True"
| "posts_carry sv st history (e # es) candidate =
     ((is_post e \<longrightarrow>
         (\<exists>careers headers.
            e = HttpPost (AI_SERVICE_URL st)
                  (JObj (aiPayload_of (mappings st) candidate careers))
                  (AI_SERVICE_TIMEOUT st) headers))
      \<and> posts_carry sv st (history @ [e]) es (touched sv history e candidate))"

text \<open>What a part of the pipeline does between a world \<open>w\<close> and a later world \<open>w'\<close>.\<close>

definition stage_step ::
  "services \<Rightarrow> settings \<Rightarrow> nat \<Rightarrow> nat \<Rightarrow> nat \<Rightarrow> nat \<Rightarrow> world \<Rightarrow> world \<Rightarrow> bool" where
  "stage_step sv st s f p u w w' =
     (\<exists>es. events w' = events w @ es
         \<and> candidate_object w' = replay sv (events w) es (candidate_object w)
         \<and> now w \<le> now w'
         \<and> calls_within st s f p u es
         \<and> posts_carry sv st (events w) es (candidate_object w))"

text \<open>
  What the \<^verbatim>\<open>catch\<close> of \<open>retryOperation\<close> makes of the last attempt of the budget: a failure is
  thrown on, unless the read of its message throws.
\<close>

definition last_attempt :: "outcome option \<times> world \<Rightarrow> outcome option \<times> world" where
  "last_attempt r =
     (case r of
        (Some (Thrown e), w) \<Rightarrow>
          (case get_member e ''message'' of
             Thrown te \<Rightarrow> (Some (Thrown te), w)
           | Returned m \<Rightarrow> (Some (Thrown e), w))
      | _ \<Rightarrow> r)"

text \<open>
  The id that the save step returned: \<open>None\<close> when the step was not reached or did not
  succeed.
\<close>

definition saved_id :: "settings \<Rightarrow> services \<Rightarrow> jsobject \<Rightarrow> world \<Rightarrow> jsval option" where
  "saved_id st sv candidate w =
     (case dbService sv of
        None \<Rightarrow> None
      | Some db \<Rightarrow>
          if filter (\<lambda>method. \<not> db method) (requiredMethods (mappings st)) \<noteq> [] then None
          else (case fst (retryOperation (save_operation st sv) 2 1000
                            (w\<lparr>candidate_object := candidate\<rparr>)) of
                  Some (Returned candidateId) \<Rightarrow> Some candidateId
                | _ \<Rightarrow> None))"

text \<open>
  The thrown value has a message that \<^verbatim>\<open>err.message.includes\<close> can search: a string, or an
  array.
\<close>

definition searchable_message :: "jsval \<Rightarrow> bool" where
  "searchable_message err =
     (case get_member err ''message'' of
        Returned (JStr m) \<Rightarrow> True
      | Returned (JArr xs) \<Rightarrow> True
      | _ \<Rightarrow> False)"

text \<open>A member of the body of the response that a handler sent, and its status.\<close>

definition reply_field :: "reply \<Rightarrow> string \<Rightarrow> outcome option" where
  "reply_field r k = (case r of Answered r' \<Rightarrow> Some (get_member (body r') k) | _ \<Rightarrow> None)"

definition reply_status :: "reply \<Rightarrow> nat option" where
  "reply_status r = (case r of Answered r' \<Rightarrow> Some (status r') | _ \<Rightarrow> None)"

section \<open>Properties of the utility functions\<close>

lemmas scenario_defs =
  save_operation_def invoke_def scripted_services_def scripted_respond_def withTimeout_def
  default_settings_def sleep_def FIELD_MAPPINGS_def env_or_def show_nat.simps digit_char_def
  w0_def w_ada_def ada_def fetch_ok_def post_ok_def update_ok_def timeout_error_def deadlock_def
  no_touch_def rejects_undefined_def undefined_rejecting_services_def

lemma starts_with_append: "starts_with (sub @ b) sub"
  by (induction sub) auto

lemma starts_with_includes: "starts_with s sub \<Longrightarrow> str_includes s sub"
  by (cases s; cases sub) auto

lemma str_includes_append: "str_includes (a @ sub @ b) sub"
proof (induction a)
  case Nil
  show ?case using starts_with_includes [OF starts_with_append] by simp
next
  case (Cons c a)
  then show ?case by simp
qed

lemma statusCode_timeout_error: "statusCode_of (timeout_error operation timeoutMs) = Inr 408"
proof -
  have "str_includes (operation @ '' '' @ ''timeout'' @ ('' after '' @ show_nat timeoutMs @ ''ms'')) ''timeout''"
    using str_includes_append [of "operation @ '' ''" "''timeout''"] by simp
  then show ?thesis
    by (simp add: statusCode_of_def timeout_error_def)
qed

lemma show_nat_5000: "show_nat 5000 = ''5000''"
  by (simp add: show_nat.simps digit_char_def)

text \<open>
  Claim C9. Whenever the timer fires before the wrapped operation settles, whatever the
  operation does later (fulfil, reject or never settle), \<open>withTimeout\<close> rejects at the
  configured duration with an error whose message carries the operation label and the
  duration, and which the handler classifies as a timeout (408). In every case the caller
  observes one outcome: the timeout error when the timer is first, the operation's own
  outcome otherwise.
\<close>

theorem withTimeout_race:
  "withTimeout p timeoutMs operation =
     (if timer_fires_first p timeoutMs
      then Settles timeoutMs (Thrown (timeout_error operation timeoutMs))
      else p)
   \<and> timeout_error operation timeoutMs =
       Error (operation @ '' timeout after '' @ show_nat timeoutMs @ ''ms'') None
   \<and> statusCode_of (timeout_error operation timeoutMs) = Inr 408"
proof -
  have race: "withTimeout p timeoutMs operation =
     (if timer_fires_first p timeoutMs
      then Settles timeoutMs (Thrown (timeout_error operation timeoutMs))
      else p)"
    by (cases p) (simp_all add: withTimeout_def)
  show ?thesis
    using race statusCode_timeout_error by (simp add: timeout_error_def)
qed

theorem withTimeout_race_witness:
  "timer_fires_first (Settles 7000 (Returned (JStr ''late''))) 5000
   \<and> withTimeout (Settles 7000 (Returned (JStr ''late''))) 5000 ''Save candidate'' =
       Settles 5000 (Thrown (Error ''Save candidate timeout after 5000ms'' None))
   \<and> withTimeout Never 5000 ''Save candidate'' =
       Settles 5000 (Thrown (Error ''Save candidate timeout after 5000ms'' None))
   \<and> withTimeout (Settles 20 (Returned (JStr ''c1''))) 5000 ''Save candidate'' =
       Settles 20 (Returned (JStr ''c1''))"
  using withTimeout_race [of "Settles 7000 (Returned (JStr ''late''))" 5000 "''Save candidate''"]
        withTimeout_race [of Never 5000 "''Save candidate''"]
        withTimeout_race [of "Settles 20 (Returned (JStr ''c1''))" 5000 "''Save candidate''"]
        show_nat_5000
  by simp

lemma message_read:
  "e \<noteq> JUndefined \<Longrightarrow> e \<noteq> JNull \<Longrightarrow> \<exists>m. get_member e ''message'' = Returned m"
  by (cases e) simp_all

lemma retry_loop_step:
  assumes "attempt < maxRetries" "fst (operation w) = Some (Thrown e)" "e \<noteq> JUndefined" "e \<noteq> JNull"
  shows "retry_loop operation maxRetries delay attempt w =
         retry_loop operation maxRetries delay (Suc attempt) (sleep (delay * attempt) (snd (operation w)))"
  using assms message_read [of e] by (subst retry_loop.simps) (auto split: prod.splits)

lemma retry_loop_skip:
  assumes "Suc n \<le> maxRetries"
    and "\<forall>k. 1 \<le> k \<and> k < Suc n \<longrightarrow>
           (\<exists>e. fst (operation (spec_world_before_attempt operation delay w k)) = Some (Thrown e)
                \<and> e \<noteq> JUndefined \<and> e \<noteq> JNull)"
  shows "retry_loop operation maxRetries delay 1 w =
         retry_loop operation maxRetries delay (Suc n)
           (spec_world_before_attempt operation delay w (Suc n))"
  using assms
proof (induction n)
  case 0
  then show ?case by simp
next
  case (Suc n)
  from Suc.prems obtain e where
    e: "fst (operation (spec_world_before_attempt operation delay w (Suc n))) = Some (Thrown e)"
       "e \<noteq> JUndefined" "e \<noteq> JNull"
    by (metis One_nat_def Suc_le_mono le0 lessI)
  have "retry_loop operation maxRetries delay 1 w =
        retry_loop operation maxRetries delay (Suc n)
          (spec_world_before_attempt operation delay w (Suc n))"
    using Suc by simp
  also have "\<dots> = retry_loop operation maxRetries delay (Suc (Suc n))
          (spec_world_before_attempt operation delay w (Suc (Suc n)))"
    using retry_loop_step [of "Suc n" maxRetries operation _ e delay] Suc.prems(1) e by simp
  finally show ?case .
qed

text \<open>
  Claim C5, as amended. Let the attempts \<open>1, ..., j - 1\<close> of an operation fail with thrown
  values other than \<^verbatim>\<open>undefined\<close> and \<^verbatim>\<open>null\<close>, each attempt \<open>k \<ge> 2\<close> starting
  \<open>delay * (k - 1)\<close> ms after the failure before it, and let \<open>j\<close> be within the budget. If
  attempt \<open>j\<close> succeeds, \<open>retryOperation\<close> returns its value, and the world is the one that
  attempt left. If \<open>j\<close> is the last attempt of the budget and fails with a thrown value \<open>e\<close>
  other than \<^verbatim>\<open>undefined\<close> and \<^verbatim>\<open>null\<close>, \<open>retryOperation\<close> throws that same \<open>e\<close>, and no
  further pause follows.
\<close>

theorem retryOperation_refines_spec:
  assumes "1 \<le> j" and "j \<le> maxRetries"
    and "\<forall>k. 1 \<le> k \<and> k < j \<longrightarrow>
           (\<exists>e. fst (operation (spec_world_before_attempt operation delay w k)) = Some (Thrown e)
                \<and> e \<noteq> JUndefined \<and> e \<noteq> JNull)"
  shows "(fst (operation (spec_world_before_attempt operation delay w j)) = Some (Returned v) \<longrightarrow>
            retryOperation operation maxRetries delay w =
              (Some (Returned v), snd (operation (spec_world_before_attempt operation delay w j))))
       \<and> (j = maxRetries \<and>
            fst (operation (spec_world_before_attempt operation delay w j)) = Some (Thrown e)
            \<and> e \<noteq> JUndefined \<and> e \<noteq> JNull \<longrightarrow>
            retryOperation operation maxRetries delay w =
              (Some (Thrown e), snd (operation (spec_world_before_attempt operation delay w j))))"
proof -
  obtain n where n: "j = Suc n" using assms(1) by (cases j) auto
  let ?wj = "spec_world_before_attempt operation delay w j"
  have skip: "retryOperation operation maxRetries delay w =
              retry_loop operation maxRetries delay j ?wj"
    unfolding retryOperation_def using retry_loop_skip [of n maxRetries operation delay w] assms n
    by simp
  have ok: "retry_loop operation maxRetries delay j ?wj = (Some (Returned v), snd (operation ?wj))"
    if "fst (operation ?wj) = Some (Returned v)"
    using that assms(2) by (subst retry_loop.simps) (auto split: prod.splits)
  have bad: "retry_loop operation maxRetries delay j ?wj = (Some (Thrown e), snd (operation ?wj))"
    if "j = maxRetries" "fst (operation ?wj) = Some (Thrown e)" "e \<noteq> JUndefined" "e \<noteq> JNull"
    using that message_read [of e] by (subst retry_loop.simps) (auto split: prod.splits)
  show ?thesis using skip ok bad by auto
qed

text \<open>
  An operation that fails twice and then succeeds, on a budget of three attempts, and one
  that fails three times: the pauses are \<open>1000\<close> and \<open>2000\<close> ms.
\<close>

theorem retryOperation_refines_spec_witness:
  "retryOperation (save_operation default_settings (scripted_services 2 fetch_ok post_ok update_ok)) 3 1000 w_ada =
     (Some (Returned (JStr ''c1'')),
      \<lparr> now = 3110,
        events = [DbCall ''saveCandidate'' [JObj ada], Delay 1000,
                  DbCall ''saveCandidate'' [JObj ada], Delay 2000,
                  DbCall ''saveCandidate'' [JObj ada]],
        candidate_object = ada \<rparr>)
   \<and> retryOperation (save_operation default_settings (scripted_services 3 fetch_ok post_ok update_ok)) 3 1000 w_ada =
     (Some (Thrown (Error ''deadlock 2'' None)),
      \<lparr> now = 3120,
        events = [DbCall ''saveCandidate'' [JObj ada], Delay 1000,
                  DbCall ''saveCandidate'' [JObj ada], Delay 2000,
                  DbCall ''saveCandidate'' [JObj ada]],
        candidate_object = ada \<rparr>)"
proof -
  let ?op2 = "save_operation default_settings (scripted_services 2 fetch_ok post_ok update_ok)"
  let ?op3 = "save_operation default_settings (scripted_services 3 fetch_ok post_ok update_ok)"
  have three: "k = 1 \<or> k = 2" if "1 \<le> k \<and> k < 3" for k :: nat
    using that by auto
  have f2: "\<forall>k. 1 \<le> k \<and> k < 3 \<longrightarrow>
              (\<exists>e. fst (?op2 (spec_world_before_attempt ?op2 1000 w_ada k)) = Some (Thrown e)
                   \<and> e \<noteq> JUndefined \<and> e \<noteq> JNull)"
  proof (intro allI impI)
    fix k :: nat
    assume "1 \<le> k \<and> k < 3"
    then have "k = 1 \<or> k = 2" by (rule three)
    then show "\<exists>e. fst (?op2 (spec_world_before_attempt ?op2 1000 w_ada k)) = Some (Thrown e)
                 \<and> e \<noteq> JUndefined \<and> e \<noteq> JNull"
      by (auto simp: scenario_defs numeral_2_eq_2)
  qed
  have f3: "\<forall>k. 1 \<le> k \<and> k < 3 \<longrightarrow>
              (\<exists>e. fst (?op3 (spec_world_before_attempt ?op3 1000 w_ada k)) = Some (Thrown e)
                   \<and> e \<noteq> JUndefined \<and> e \<noteq> JNull)"
  proof (intro allI impI)
    fix k :: nat
    assume "1 \<le> k \<and> k < 3"
    then have "k = 1 \<or> k = 2" by (rule three)
    then show "\<exists>e. fst (?op3 (spec_world_before_attempt ?op3 1000 w_ada k)) = Some (Thrown e)
                 \<and> e \<noteq> JUndefined \<and> e \<noteq> JNull"
      by (auto simp: scenario_defs numeral_2_eq_2)
  qed
  have a: "?op2 (spec_world_before_attempt ?op2 1000 w_ada 3) =
     (Some (Returned (JStr ''c1'')),
      \<lparr> now = 3110,
        events = [DbCall ''saveCandidate'' [JObj ada], Delay 1000,
                  DbCall ''saveCandidate'' [JObj ada], Delay 2000,
                  DbCall ''saveCandidate'' [JObj ada]],
        candidate_object = ada \<rparr>)"
    by (simp add: scenario_defs numeral_3_eq_3)
  have b: "?op3 (spec_world_before_attempt ?op3 1000 w_ada 3) =
     (Some (Thrown (Error ''deadlock 2'' None)),
      \<lparr> now = 3120,
        events = [DbCall ''saveCandidate'' [JObj ada], Delay 1000,
                  DbCall ''saveCandidate'' [JObj ada], Delay 2000,
                  DbCall ''saveCandidate'' [JObj ada]],
        candidate_object = ada \<rparr>)"
    by (simp add: scenario_defs numeral_3_eq_3)
  show ?thesis
    using retryOperation_refines_spec [of 3 3 ?op2 1000 w_ada "JStr ''c1''", OF _ _ f2]
          retryOperation_refines_spec [of 3 3 ?op3 1000 w_ada _ "Error ''deadlock 2'' None", OF _ _ f3]
          a b
    by simp
qed

text \<open>
  The first attempt is rejected with \<^verbatim>\<open>undefined\<close>; the second attempt, \<open>1000\<close> ms later,
  would give the id. On a budget of three attempts \<open>retryOperation\<close> makes the first
  attempt only, and throws a TypeError.
\<close>

theorem undefined_rejection_is_not_retried_counterexample:
  "fst (save_operation default_settings undefined_rejecting_services
          (spec_world_before_attempt (save_operation default_settings undefined_rejecting_services)
             1000 w_ada 1)) =
     Some (Thrown JUndefined)
   \<and> fst (save_operation default_settings undefined_rejecting_services
          (spec_world_before_attempt (save_operation default_settings undefined_rejecting_services)
             1000 w_ada 2)) =
     Some (Returned (JStr ''c1''))
   \<and> retryOperation (save_operation default_settings undefined_rejecting_services) 3 1000 w_ada =
     (Some (Thrown (Error ''Cannot read properties of undefined (reading 'message')'' None)),
      \<lparr> now = 40, events = [DbCall ''saveCandidate'' [JObj ada]], candidate_object = ada \<rparr>)"
proof -
  let ?op = "save_operation default_settings undefined_rejecting_services"
  have a: "?op w_ada =
             (Some (Thrown JUndefined),
              \<lparr> now = 40, events = [DbCall ''saveCandidate'' [JObj ada]], candidate_object = ada \<rparr>)"
    by (simp add: scenario_defs)
  have b: "fst (?op (spec_world_before_attempt ?op 1000 w_ada 2)) = Some (Returned (JStr ''c1''))"
    by (simp add: scenario_defs numeral_2_eq_2)
  have c: "retryOperation ?op 3 1000 w_ada =
     (Some (Thrown (Error ''Cannot read properties of undefined (reading 'message')'' None)),
      \<lparr> now = 40, events = [DbCall ''saveCandidate'' [JObj ada]], candidate_object = ada \<rparr>)"
    unfolding retryOperation_def by (subst retry_loop.simps) (simp add: a)
  show ?thesis using a b c by simp
qed
section \<open>What the stages of the pipeline add to the world\<close>

lemma retryOperation_2:
  "retryOperation operation 2 delay w =
     (case operation w of
        (Some (Thrown e), w') \<Rightarrow>
          (case get_member e ''message'' of
             Thrown te \<Rightarrow> (Some (Thrown te), w')
           | Returned m \<Rightarrow> last_attempt (operation (sleep delay w')))
      | r \<Rightarrow> r)"
  unfolding retryOperation_def last_attempt_def
  apply (subst retry_loop.simps)
  apply (subst retry_loop.simps)
  apply (auto split: prod.splits option.splits outcome.splits)
  done

lemma last_attempt_snd: "snd (last_attempt r) = snd r"
  by (auto simp: last_attempt_def split: prod.splits option.splits outcome.splits)

lemma last_attempt_None: "fst (last_attempt r) = None \<longleftrightarrow> fst r = None"
  by (auto simp: last_attempt_def split: prod.splits option.splits outcome.splits)

lemma last_attempt_eq:
  "last_attempt (y, w2) = (x, w') \<Longrightarrow> w' = w2 \<and> (x = None \<longleftrightarrow> y = None)"
  using last_attempt_snd [of "(y, w2)"] last_attempt_None [of "(y, w2)"] by simp

lemma last_attempt_readable:
  "e \<noteq> JUndefined \<Longrightarrow> e \<noteq> JNull \<Longrightarrow> last_attempt (Some (Thrown e), w) = (Some (Thrown e), w)"
  using message_read [of e] by (auto simp: last_attempt_def)

lemma last_attempt_Returned: "last_attempt (Some (Returned v), w) = (Some (Returned v), w)"
  by (simp add: last_attempt_def)

text \<open>Two attempts: the events of the first, then a pause and the events of the second.\<close>

lemma retryOperation_2_cases:
  obtains (first) "retryOperation operation 2 delay w = operation w"
  | (unreadable) e te w1 where "operation w = (Some (Thrown e), w1)"
      "retryOperation operation 2 delay w = (Some (Thrown te), w1)"
  | (second) e w1 where "operation w = (Some (Thrown e), w1)"
      "retryOperation operation 2 delay w = last_attempt (operation (sleep delay w1))"
proof (cases "operation w")
  case (Pair a b)
  show thesis
  proof (cases a)
    case None
    then show thesis using first Pair by (simp add: retryOperation_2)
  next
    case (Some r)
    show thesis
    proof (cases r)
      case (Returned v)
      then show thesis using first Pair Some by (simp add: retryOperation_2)
    next
      case (Thrown e)
      show thesis
      proof (cases "get_member e ''message''")
        case (Returned m)
        then show thesis using second [of e b] Pair Some Thrown by (simp add: retryOperation_2)
      next
        case (Thrown te)
        then show thesis using unreadable [of e b te] Pair Some \<open>r = Thrown e\<close>
          by (simp add: retryOperation_2)
      qed
    qed
  qed
qed

lemma retryOperation_2_retry:
  assumes "operation w = (Some (Thrown e), w1)" "e \<noteq> JUndefined" "e \<noteq> JNull"
  shows "retryOperation operation 2 delay w = last_attempt (operation (sleep delay w1))"
  using assms message_read [of e] by (auto simp: retryOperation_2)

subsection \<open>Sequences of events\<close>

lemma replay_append:
  "replay sv h (es1 @ es2) c = replay sv (h @ es1) es2 (replay sv h es1 c)"
  by (induction es1 arbitrary: h c) simp_all

lemma posts_carry_append:
  "posts_carry sv st h (es1 @ es2) c =
     (posts_carry sv st h es1 c \<and> posts_carry sv st (h @ es1) es2 (replay sv h es1 c))"
  by (induction es1 arbitrary: h c) auto

lemma calls_within_Nil: "calls_within st 0 0 0 0 []"
  by (simp add: calls_within_def posts_def db_calls_def)

lemma calls_within_append:
  assumes "calls_within st s1 f1 p1 u1 es1" "calls_within st s2 f2 p2 u2 es2"
  shows "calls_within st (s1 + s2) (f1 + f2) (p1 + p2) (u1 + u2) (es1 @ es2)"
proof -
  have "db_calls m (es1 @ es2) \<le>
          (if m = dbMethods_saveCandidate (mappings st) then s1 + s2 else 0)
        + (if m = dbMethods_fetchCareers (mappings st) then f1 + f2 else 0)
        + (if m = dbMethods_updateRecommendations (mappings st) then u1 + u2 else 0)" for m
  proof -
    have a: "db_calls m es1 \<le>
          (if m = dbMethods_saveCandidate (mappings st) then s1 else 0)
        + (if m = dbMethods_fetchCareers (mappings st) then f1 else 0)
        + (if m = dbMethods_updateRecommendations (mappings st) then u1 else 0)"
      using assms(1) by (simp add: calls_within_def)
    have b: "db_calls m es2 \<le>
          (if m = dbMethods_saveCandidate (mappings st) then s2 else 0)
        + (if m = dbMethods_fetchCareers (mappings st) then f2 else 0)
        + (if m = dbMethods_updateRecommendations (mappings st) then u2 else 0)"
      using assms(2) by (simp add: calls_within_def)
    have "db_calls m (es1 @ es2) = db_calls m es1 + db_calls m es2"
      by (simp add: db_calls_def)
    then show ?thesis using a b by (simp split: if_splits)
  qed
  moreover have "posts (es1 @ es2) \<le> p1 + p2"
    using assms by (simp add: calls_within_def posts_def)
  ultimately show ?thesis by (simp add: calls_within_def)
qed

lemma calls_within_mono:
  assumes "calls_within st s f p u es" "s \<le> s'" "f \<le> f'" "p \<le> p'" "u \<le> u'"
  shows "calls_within st s' f' p' u' es"
proof -
  have "db_calls m es \<le>
          (if m = dbMethods_saveCandidate (mappings st) then s' else 0)
        + (if m = dbMethods_fetchCareers (mappings st) then f' else 0)
        + (if m = dbMethods_updateRecommendations (mappings st) then u' else 0)" for m
  proof -
    have a: "db_calls m es \<le>
          (if m = dbMethods_saveCandidate (mappings st) then s else 0)
        + (if m = dbMethods_fetchCareers (mappings st) then f else 0)
        + (if m = dbMethods_updateRecommendations (mappings st) then u else 0)"
      using assms(1) by (simp add: calls_within_def)
    show ?thesis using a assms(2-5) by (simp split: if_splits)
  qed
  then show ?thesis using assms by (simp add: calls_within_def)
qed

lemma calls_within_save: "calls_within st 1 0 0 0 [DbCall (dbMethods_saveCandidate (mappings st)) args]"
  by (simp add: calls_within_def posts_def db_calls_def)

lemma calls_within_fetch: "calls_within st 0 1 0 0 [DbCall (dbMethods_fetchCareers (mappings st)) args]"
  by (simp add: calls_within_def posts_def db_calls_def)

lemma calls_within_update: "calls_within st 0 0 0 1 [DbCall (dbMethods_updateRecommendations (mappings st)) args]"
  by (simp add: calls_within_def posts_def db_calls_def)

lemma calls_within_delay: "calls_within st 0 0 0 0 [Delay ms]"
  by (simp add: calls_within_def posts_def db_calls_def)

lemma calls_within_post: "calls_within st 0 0 1 0 [HttpPost url payload t headers]"
  by (simp add: calls_within_def posts_def db_calls_def)

subsection \<open>Steps\<close>

lemma stage_step_refl: "stage_step sv st 0 0 0 0 w w"
  unfolding stage_step_def by (rule exI [of _ "[]"]) (simp add: calls_within_Nil)

lemma stage_step_trans:
  assumes "stage_step sv st s1 f1 p1 u1 w w'" "stage_step sv st s2 f2 p2 u2 w' w''"
  shows "stage_step sv st (s1 + s2) (f1 + f2) (p1 + p2) (u1 + u2) w w''"
proof -
  from assms(1) obtain es1 where a:
    "events w' = events w @ es1"
    "candidate_object w' = replay sv (events w) es1 (candidate_object w)"
    "now w \<le> now w'" "calls_within st s1 f1 p1 u1 es1"
    "posts_carry sv st (events w) es1 (candidate_object w)"
    unfolding stage_step_def by blast
  from assms(2) obtain es2 where b:
    "events w'' = events w' @ es2"
    "candidate_object w'' = replay sv (events w') es2 (candidate_object w')"
    "now w' \<le> now w''" "calls_within st s2 f2 p2 u2 es2"
    "posts_carry sv st (events w') es2 (candidate_object w')"
    unfolding stage_step_def by blast
  have "events w'' = events w @ (es1 @ es2)" using a(1) b(1) by simp
  moreover have "candidate_object w'' = replay sv (events w) (es1 @ es2) (candidate_object w)"
    using a(1,2) b(2) by (simp add: replay_append)
  moreover have "now w \<le> now w''" using a(3) b(3) by simp
  moreover have "calls_within st (s1 + s2) (f1 + f2) (p1 + p2) (u1 + u2) (es1 @ es2)"
    using a(4) b(4) by (rule calls_within_append)
  moreover have "posts_carry sv st (events w) (es1 @ es2) (candidate_object w)"
    using a(1,2,5) b(5) by (simp add: posts_carry_append)
  ultimately show ?thesis unfolding stage_step_def by blast
qed

lemma stage_step_mono:
  assumes "stage_step sv st s f p u w w'" "s \<le> s'" "f \<le> f'" "p \<le> p'" "u \<le> u'"
  shows "stage_step sv st s' f' p' u' w w'"
  using assms calls_within_mono [of st s f p u _ s' f' p' u']
  unfolding stage_step_def by blast

lemma stage_step_events:
  "stage_step sv st s f p u w w' \<Longrightarrow> \<exists>es. events w' = events w @ es"
  unfolding stage_step_def by blast

lemma stage_step_single:
  assumes "events w' = events w @ [e]"
    and "candidate_object w' = touched sv (events w) e (candidate_object w)"
    and "now w \<le> now w'"
    and "calls_within st s f p u [e]"
    and "is_post e \<longrightarrow>
           (\<exists>careers headers.
              e = HttpPost (AI_SERVICE_URL st)
                    (JObj (aiPayload_of (mappings st) (candidate_object w) careers))
                    (AI_SERVICE_TIMEOUT st) headers)"
  shows "stage_step sv st s f p u w w'"
  unfolding stage_step_def using assms by (intro exI [of _ "[e]"]) simp

lemma await_world:
  "await p w = (x, w') \<Longrightarrow>
   events w' = events w \<and> candidate_object w' = candidate_object w \<and> now w \<le> now w'"
  by (cases p) auto

lemma await_withTimeout:
  "await (withTimeout p T l) w = (x, w') \<Longrightarrow> x \<noteq> None \<and> now w' \<le> now w + T"
  by (cases p) (auto simp: withTimeout_def split: if_splits)

lemma await_timer_first:
  "timer_fires_first p T \<Longrightarrow>
   await (withTimeout p T l) w = (Some (Thrown (timeout_error l T)), w\<lparr>now := now w + T\<rparr>)"
  by (cases p) (auto simp: withTimeout_def)

lemma sleep_step: "stage_step sv st 0 0 0 0 w (sleep ms w)"
  by (intro stage_step_single [where e = "Delay ms"] calls_within_delay) (simp_all add: sleep_def)

subsection \<open>Attempts\<close>

lemma save_operation_world:
  assumes "save_operation st sv w = (x, w')"
  shows "events w' = events w @ [DbCall (dbMethods_saveCandidate (mappings st)) [JObj (candidate_object w)]]
         \<and> stage_step sv st 1 0 0 0 w w' \<and> x \<noteq> None
         \<and> now w' \<le> now w + DB_CONNECTION_TIMEOUT st"
proof -
  let ?c = "DbCall (dbMethods_saveCandidate (mappings st)) [JObj (candidate_object w)]"
  let ?w1 = "w\<lparr>events := events w @ [?c], candidate_object := touch sv (events w) ?c (candidate_object w)\<rparr>"
  obtain p where a: "await (withTimeout p (DB_CONNECTION_TIMEOUT st) ''Save candidate'') ?w1 = (x, w')"
    using assms by (auto simp: save_operation_def invoke_def)
  have "stage_step sv st 1 0 0 0 w w'"
    using await_world [OF a] by (intro stage_step_single [where e = ?c] calls_within_save) simp_all
  then show ?thesis using await_world [OF a] await_withTimeout [OF a] by simp
qed

lemma fetch_operation_world:
  assumes "fetch_operation st sv w = (x, w')"
  shows "events w' = events w @ [DbCall (dbMethods_fetchCareers (mappings st))
                                   [JObj (careerFilter_of (mappings st) (candidate_object w))]]
         \<and> stage_step sv st 0 1 0 0 w w' \<and> x \<noteq> None
         \<and> now w' \<le> now w + DB_CONNECTION_TIMEOUT st"
proof -
  let ?c = "DbCall (dbMethods_fetchCareers (mappings st))
              [JObj (careerFilter_of (mappings st) (candidate_object w))]"
  let ?w1 = "w\<lparr>events := events w @ [?c], candidate_object := touch sv (events w) ?c (candidate_object w)\<rparr>"
  obtain p where a: "await (withTimeout p (DB_CONNECTION_TIMEOUT st) ''Fetch careers'') ?w1 = (x, w')"
    using assms by (auto simp: fetch_operation_def invoke_def)
  have "stage_step sv st 0 1 0 0 w w'"
    using await_world [OF a] by (intro stage_step_single [where e = ?c] calls_within_fetch) simp_all
  then show ?thesis using await_world [OF a] await_withTimeout [OF a] by simp
qed

lemma update_operation_world:
  assumes "update_operation st sv cid recs w = (x, w')"
  shows "events w' = events w @ [DbCall (dbMethods_updateRecommendations (mappings st)) [cid, recs]]
         \<and> stage_step sv st 0 0 0 1 w w' \<and> x \<noteq> None
         \<and> now w' \<le> now w + DB_CONNECTION_TIMEOUT st"
proof -
  let ?c = "DbCall (dbMethods_updateRecommendations (mappings st)) [cid, recs]"
  let ?w1 = "w\<lparr>events := events w @ [?c], candidate_object := touch sv (events w) ?c (candidate_object w)\<rparr>"
  obtain p where a: "await (withTimeout p (DB_CONNECTION_TIMEOUT st) ''Update recommendations'') ?w1 = (x, w')"
    using assms by (auto simp: update_operation_def invoke_def)
  have "stage_step sv st 0 0 0 1 w w'"
    using await_world [OF a] by (intro stage_step_single [where e = ?c] calls_within_update) simp_all
  then show ?thesis using await_world [OF a] await_withTimeout [OF a] by simp
qed

lemma scoring_operation_world:
  assumes "scoring_operation st sv careers w = (x, w')"
  shows "events w' = events w @
           [HttpPost (AI_SERVICE_URL st)
              (JObj (aiPayload_of (mappings st) (candidate_object w) careers))
              (AI_SERVICE_TIMEOUT st)
              [(''Content-Type'', ''application/json''), (''X-Request-ID'', ''rec-'' @ show_nat (now w))]]
         \<and> stage_step sv st 0 0 1 0 w w'
         \<and> (x = None \<longrightarrow> (\<exists>h t c. is_post c \<and> respond sv h t c = Never))"
proof -
  let ?c = "HttpPost (AI_SERVICE_URL st)
              (JObj (aiPayload_of (mappings st) (candidate_object w) careers))
              (AI_SERVICE_TIMEOUT st)
              [(''Content-Type'', ''application/json''), (''X-Request-ID'', ''rec-'' @ show_nat (now w))]"
  let ?w1 = "w\<lparr>events := events w @ [?c], candidate_object := touch sv (events w) ?c (candidate_object w)\<rparr>"
  let ?p = "respond sv (events w) (now w) ?c"
  obtain y w2 where a: "await ?p ?w1 = (y, w2)" by (cases "await ?p ?w1") auto
  have w': "w' = w2" and xy: "x = None \<longleftrightarrow> y = None"
    using assms a
    by (auto simp: scoring_operation_def invoke_def split: option.splits outcome.splits if_splits)
  have "y = None \<Longrightarrow> ?p = Never" using a by (cases ?p) auto
  moreover have "is_post ?c" by simp
  ultimately have never: "x = None \<longrightarrow> (\<exists>h t c. is_post c \<and> respond sv h t c = Never)"
    using xy by blast
  have "stage_step sv st 0 0 1 0 w w'"
    using await_world [OF a] w'
    by (intro stage_step_single [where e = ?c] calls_within_post) auto
  then show ?thesis using await_world [OF a] w' never by simp
qed

subsection \<open>Stages\<close>

lemma retry_save_world:
  assumes "retryOperation (save_operation st sv) 2 1000 w = (x, w')"
  shows "stage_step sv st 2 0 0 0 w w' \<and> x \<noteq> None"
proof (cases rule: retryOperation_2_cases [of "save_operation st sv" 1000 w])
  case first
  then have "save_operation st sv w = (x, w')" using assms by simp
  from save_operation_world [OF this] show ?thesis
    using stage_step_mono [of sv st 1 0 0 0 w w' 2 0 0 0] by auto
next
  case (unreadable e te w1)
  then have "w' = w1" "x \<noteq> None" using assms by simp_all
  then show ?thesis
    using save_operation_world [OF unreadable(1)] stage_step_mono [of sv st 1 0 0 0 w w' 2 0 0 0]
    by auto
next
  case (second e w1)
  obtain y w2 where a: "save_operation st sv (sleep 1000 w1) = (y, w2)"
    by (cases "save_operation st sv (sleep 1000 w1)") auto
  have "last_attempt (y, w2) = (x, w')" using second(2) assms a by simp
  then have r: "w' = w2" "x = None \<longleftrightarrow> y = None"
    using last_attempt_eq by blast+
  have "stage_step sv st (1 + 0 + 1) (0 + 0 + 0) (0 + 0 + 0) (0 + 0 + 0) w w2"
    using save_operation_world [OF second(1)] save_operation_world [OF a] sleep_step [of sv st w1 1000]
    by (intro stage_step_trans [where w' = "sleep 1000 w1"] stage_step_trans [where w' = w1]) simp_all
  then show ?thesis using r save_operation_world [OF a] by (simp add: numeral_2_eq_2)
qed

lemma retry_scoring_world:
  assumes "retryOperation (scoring_operation st sv careers) 2 2000 w = (x, w')"
  shows "stage_step sv st 0 0 2 0 w w'
         \<and> (x = None \<longrightarrow> (\<exists>h t c. is_post c \<and> respond sv h t c = Never))"
proof (cases rule: retryOperation_2_cases [of "scoring_operation st sv careers" 2000 w])
  case first
  then have "scoring_operation st sv careers w = (x, w')" using assms by simp
  from scoring_operation_world [OF this] show ?thesis
    using stage_step_mono [of sv st 0 0 1 0 w w' 0 0 2 0] by auto
next
  case (unreadable e te w1)
  then have "w' = w1" "x \<noteq> None" using assms by simp_all
  then show ?thesis
    using scoring_operation_world [OF unreadable(1)] stage_step_mono [of sv st 0 0 1 0 w w' 0 0 2 0]
    by auto
next
  case (second e w1)
  obtain y w2 where a: "scoring_operation st sv careers (sleep 2000 w1) = (y, w2)"
    by (cases "scoring_operation st sv careers (sleep 2000 w1)") auto
  have "last_attempt (y, w2) = (x, w')" using second(2) assms a by simp
  then have r: "w' = w2" "x = None \<longleftrightarrow> y = None"
    using last_attempt_eq by blast+
  have "stage_step sv st (0 + 0 + 0) (0 + 0 + 0) (1 + 0 + 1) (0 + 0 + 0) w w2"
    using scoring_operation_world [OF second(1)] scoring_operation_world [OF a]
      sleep_step [of sv st w1 2000]
    by (intro stage_step_trans [where w' = "sleep 2000 w1"] stage_step_trans [where w' = w1]) simp_all
  then show ?thesis using r scoring_operation_world [OF a] by (simp add: numeral_2_eq_2)
qed

lemma persist_stage_world:
  assumes "persist_stage st sv t careers cid recs len w = (a, w')"
  shows "stage_step sv st 0 0 0 1 w w' \<and> a \<noteq> Stuck \<and> (\<forall>r. a = Responded r \<longrightarrow> status r = 200)"
proof -
  obtain x w2 where u: "update_operation st sv cid recs w = (x, w2)"
    by (cases "update_operation st sv cid recs w") auto
  have "w' = w2 \<and> a \<noteq> Stuck \<and> (\<forall>r. a = Responded r \<longrightarrow> status r = 200)"
    using assms u update_operation_world [OF u]
    by (auto simp: persist_stage_def success_response_def split: option.splits outcome.splits)
  then show ?thesis using update_operation_world [OF u] by simp
qed

lemma scoring_stage_world:
  assumes "scoring_stage st sv t careers cid w = (a, w')"
  shows "stage_step sv st 0 0 2 1 w w'
         \<and> (a = Stuck \<longrightarrow> (\<exists>h t c. is_post c \<and> respond sv h t c = Never))
         \<and> (\<forall>r. a = Responded r \<longrightarrow> status r = 200)"
proof -
  obtain x w1 where r: "retryOperation (scoring_operation st sv careers) 2 2000 w = (x, w1)"
    by (cases "retryOperation (scoring_operation st sv careers) 2 2000 w") auto
  note s = retry_scoring_world [OF r]
  have early: ?thesis if "w' = w1" "a \<noteq> Stuck \<or> x = None" "\<forall>r. a \<noteq> Responded r"
  proof -
    have "stage_step sv st 0 0 2 1 w w'"
      using that(1) s stage_step_mono [of sv st 0 0 2 0 w w1 0 0 2 1] by simp
    then show ?thesis using that s by blast
  qed
  have late: ?thesis if p: "persist_stage st sv t careers cid recs len w1 = (a, w')" for recs len
  proof -
    have "stage_step sv st (0 + 0) (0 + 0) (2 + 0) (0 + 1) w w'"
      using s persist_stage_world [OF p] by (intro stage_step_trans [where w' = w1]) simp_all
    then show ?thesis using persist_stage_world [OF p] by simp
  qed
  show ?thesis
  proof (cases x)
    case None
    then show ?thesis using assms r early by (auto simp: scoring_stage_def)
  next
    case (Some out)
    show ?thesis
    proof (cases out)
      case (Thrown e)
      then show ?thesis using assms r Some early by (auto simp: scoring_stage_def)
    next
      case (Returned aiResponse)
      show ?thesis
      proof (cases "get_member aiResponse ''data''")
        case (Thrown e)
        then show ?thesis using assms r Some Returned early by (auto simp: scoring_stage_def)
      next
        case recs: (Returned recommendations)
        show ?thesis
        proof (cases "get_member recommendations ''length''")
          case (Thrown e)
          then show ?thesis using assms r Some Returned recs early by (auto simp: scoring_stage_def)
        next
          case len: (Returned recLength)
          then have "persist_stage st sv t careers cid recommendations recLength w1 = (a, w')"
            using assms r Some Returned recs by (simp add: scoring_stage_def)
          then show ?thesis by (rule late)
        qed
      qed
    qed
  qed
qed

lemma fetch_stage_world:
  assumes "fetch_stage st sv t cid w = (a, w')"
  shows "stage_step sv st 0 1 2 1 w w'
         \<and> (a = Stuck \<longrightarrow> (\<exists>h t c. is_post c \<and> respond sv h t c = Never))
         \<and> (\<forall>r. a = Responded r \<longrightarrow> status r = 200)"
proof -
  obtain x w2 where f: "fetch_operation st sv w = (x, w2)"
    by (cases "fetch_operation st sv w") auto
  note fw = fetch_operation_world [OF f]
  have early: ?thesis if "w' = w2" "a \<noteq> Stuck" "\<forall>r. a \<noteq> Responded r"
    using that fw stage_step_mono [of sv st 0 1 0 0 w w2 0 1 2 1] by auto
  have late: ?thesis if s: "scoring_stage st sv t cs cid w2 = (a, w')" for cs
  proof -
    have "stage_step sv st (0 + 0) (1 + 0) (0 + 2) (0 + 1) w w'"
      using fw scoring_stage_world [OF s] by (intro stage_step_trans [where w' = w2]) simp_all
    then show ?thesis using scoring_stage_world [OF s] by (simp add: numeral_2_eq_2)
  qed
  show ?thesis
  proof (cases x)
    case None
    then show ?thesis using fw by simp
  next
    case (Some out)
    show ?thesis
    proof (cases out)
      case (Thrown e)
      then show ?thesis using assms f Some early by (auto simp: fetch_stage_def)
    next
      case (Returned careers)
      show ?thesis
      proof (cases "\<exists>cs. careers = JArr cs")
        case True
        then obtain cs where "careers = JArr cs" by blast
        then have "scoring_stage st sv t cs cid w2 = (a, w')"
          using assms f Some Returned by (simp add: fetch_stage_def)
        then show ?thesis by (rule late)
      next
        case False
        then have "a = Raised (Error ''Invalid careers response - expected array'' None) \<and> w' = w2"
          using assms f Some Returned by (cases careers) (simp_all add: fetch_stage_def)
        then show ?thesis using early by simp
      qed
    qed
  qed
qed

lemma recommend_try_world:
  assumes "recommend_try st sv t c w = (a, cid, w')"
  shows "(w' = w \<or> stage_step sv st 2 1 2 1 (w\<lparr>candidate_object := c\<rparr>) w')
         \<and> (a = Stuck \<longrightarrow> (\<exists>h t c. is_post c \<and> respond sv h t c = Never))
         \<and> (\<forall>r. a = Responded r \<longrightarrow> status r = 200)
         \<and> cid = (case saved_id st sv c w of Some i \<Rightarrow> i | None \<Rightarrow> JNull)"
proof -
  let ?ws = "w\<lparr>candidate_object := c\<rparr>"
  have early: ?thesis if "w' = w" "a \<noteq> Stuck" "\<forall>r. a \<noteq> Responded r" "cid = JNull" "saved_id st sv c w = None"
    using that by auto
  obtain x w1 where r: "retryOperation (save_operation st sv) 2 1000 ?ws = (x, w1)"
    by (cases "retryOperation (save_operation st sv) 2 1000 ?ws") auto
  note s = retry_save_world [OF r]
  have failed: ?thesis
    if "w' = w1" "a \<noteq> Stuck" "\<forall>r. a \<noteq> Responded r" "cid = JNull" "saved_id st sv c w = None"
    using that s stage_step_mono [of sv st 2 0 0 0 ?ws w1 2 1 2 1] by auto
  have saved: ?thesis
    if f: "fetch_stage st sv t cid w1 = (a, w')" and sid: "saved_id st sv c w = Some cid"
  proof -
    have "stage_step sv st (2 + 0) (0 + 1) (0 + 2) (0 + 1) ?ws w'"
      using s fetch_stage_world [OF f] by (intro stage_step_trans [where w' = w1]) simp_all
    then show ?thesis using fetch_stage_world [OF f] sid by (simp add: numeral_2_eq_2)
  qed
  show ?thesis
  proof (cases "dbService sv")
    case None
    then show ?thesis using assms early by (auto simp: recommend_try_def saved_id_def)
  next
    case (Some db)
    show ?thesis
    proof (cases "filter (\<lambda>method. \<not> db method) (requiredMethods (mappings st)) = []")
      case False
      then show ?thesis using assms early Some by (auto simp: recommend_try_def saved_id_def Let_def)
    next
      case True
      show ?thesis
      proof (cases x)
        case None
        then show ?thesis using s by simp
      next
        case out: (Some out)
        show ?thesis
        proof (cases out)
          case (Thrown e)
          then show ?thesis
            using assms Some True r out failed by (auto simp: recommend_try_def saved_id_def Let_def)
        next
          case (Returned candidateId)
          obtain a' w2 where f: "fetch_stage st sv t candidateId w1 = (a', w2)"
            by (cases "fetch_stage st sv t candidateId w1") auto
          have "a = a'" "cid = candidateId" "w' = w2"
            using assms Some True r out Returned f by (simp_all add: recommend_try_def Let_def)
          moreover have "saved_id st sv c w = Some candidateId"
            using Some True r out Returned by (simp add: saved_id_def)
          ultimately show ?thesis using saved f by simp
        qed
      qed
    qed
  qed
qed

section \<open>Runs of the scenarios\<close>

lemmas pipeline_defs =
  recommend_def recommend_try_def fetch_stage_def scoring_stage_def persist_stage_def
  scoring_operation_def fetch_operation_def update_operation_def retryOperation_2 last_attempt_def
  careerFilter_of_def aiPayload_of_def set_field_def
  requiredMethods_def all_methods_def validateCandidate_def createCandidateSchema_def
  get_field_def failure_response_def success_response_def statusCode_of_def recommend_catch_def
  js_or_def object_keys_def engineer_careers_def engineer_recommendations_def Let_def
  reply_field_def reply_status_def object_prototype_keys_def
  fetch_rejects_validation_def fetch_not_array_def post_refused_def
  id_writing_services_def id_writing_touch_def toString_settings_def

lemmas run_defs = pipeline_defs scenario_defs failure_body_def ada_post_def ada_success_body_def


lemma run_flaky_save:
  "recommend default_settings (scripted_services 1 fetch_ok post_ok update_ok) ada w0 =
     (Answered \<lparr> status = 200, body = ada_success_body 1200 \<rparr>,
      \<lparr> now = 1200,
        events = [DbCall ''saveCandidate'' [JObj ada], Delay 1000,
                  DbCall ''saveCandidate'' [JObj ada],
                  DbCall ''fetchCareers'' [JObj [(''sector'', JStr ''tech'')]],
                  ada_post 1090,
                  DbCall ''updateCandidateRecommendations'' [JStr ''c1'', engineer_recommendations]],
        candidate_object = ada \<rparr>)"
  by (simp add: run_defs)

lemma run_save_fails_twice:
  "recommend default_settings (scripted_services 2 fetch_ok post_ok update_ok) ada w0 =
     (Answered \<lparr> status = 500, body = failure_body JNull 1080 \<rparr>,
      \<lparr> now = 1080,
        events = [DbCall ''saveCandidate'' [JObj ada], Delay 1000,
                  DbCall ''saveCandidate'' [JObj ada]],
        candidate_object = ada \<rparr>)"
  by (simp add: run_defs)

lemma run_fetch_timeout:
  "recommend default_settings (scripted_services 0 Never post_ok update_ok) ada w0 =
     (Answered \<lparr> status = 408, body = failure_body (JStr ''c1'') 5030 \<rparr>,
      \<lparr> now = 5030,
        events = [DbCall ''saveCandidate'' [JObj ada],
                  DbCall ''fetchCareers'' [JObj [(''sector'', JStr ''tech'')]]],
        candidate_object = ada \<rparr>)"
  by (simp add: run_defs)


lemma run_fetch_not_array:
  "recommend default_settings (scripted_services 0 fetch_not_array post_ok update_ok) ada w0 =
     (Answered \<lparr> status = 500, body = failure_body (JStr ''c1'') 50 \<rparr>,
      \<lparr> now = 50,
        events = [DbCall ''saveCandidate'' [JObj ada],
                  DbCall ''fetchCareers'' [JObj [(''sector'', JStr ''tech'')]]],
        candidate_object = ada \<rparr>)"
  by (simp add: run_defs)

lemma run_fetch_rejects_validation:
  "recommend default_settings (scripted_services 0 fetch_rejects_validation post_ok update_ok) ada w0 =
     (Answered \<lparr> status = 400, body = failure_body (JStr ''c1'') 35 \<rparr>,
      \<lparr> now = 35,
        events = [DbCall ''saveCandidate'' [JObj ada],
                  DbCall ''fetchCareers'' [JObj [(''sector'', JStr ''tech'')]]],
        candidate_object = ada \<rparr>)"
  by (simp add: run_defs)

lemma run_empty_body:
  "recommend default_settings (scripted_services 0 fetch_ok post_ok update_ok) [] w0 =
     (Answered (validation_response (mappings default_settings)
                  [''Missing required field: name'', ''Missing required field: sector'']), w0)"
  by (simp add: run_defs)



section \<open>Properties of validation\<close>





lemma default_names:
  "dbMethods_saveCandidate (mappings default_settings) = ''saveCandidate''"
  "dbMethods_fetchCareers (mappings default_settings) = ''fetchCareers''"
  "dbMethods_updateRecommendations (mappings default_settings) = ''updateCandidateRecommendations''"
  "dbMethods_getDropdowns (mappings default_settings) = ''getDropdowns''"
  "careerFilter_sector (mappings default_settings) = ''sector''"
  "candidate_sector (mappings default_settings) = ''sector''"
  "candidate_name (mappings default_settings) = ''name''"
  "candidate_id (mappings default_settings) = ''id''"
  "aiPayload_candidate (mappings default_settings) = ''candidate''"
  "aiPayload_careers (mappings default_settings) = ''careers''"
  by (simp_all add: default_settings_def FIELD_MAPPINGS_def env_or_def)








section \<open>Properties of the pipeline\<close>

lemma new_events_append: "events w' = events w @ es \<Longrightarrow> new_events w w' = es"
  by (simp add: new_events_def)

lemma methods_present:
  "\<forall>m \<in> set (requiredMethods (mappings st)). db m \<Longrightarrow>
   filter (\<lambda>method. \<not> db method) (requiredMethods (mappings st)) = []"
  by (auto simp: filter_empty_conv)

lemma recommend_world:
  "\<exists>es. events (snd (recommend st sv c w)) = events w @ es \<and> calls_within st 2 1 2 1 es
        \<and> posts_carry sv st (events w) es c
        \<and> (fst (recommend st sv c w) = Hangs \<longrightarrow> (\<exists>h t c. is_post c \<and> respond sv h t c = Never))"
proof (cases "validateCandidate (mappings st) c = []")
  case False
  then show ?thesis
    using calls_within_mono [OF calls_within_Nil [of st], of 2 1 2 1]
    by (simp add: recommend_def Let_def)
next
  case True
  obtain a cid w' where t: "recommend_try st sv (now w) c w = (a, cid, w')"
    by (cases "recommend_try st sv (now w) c w") auto
  note tw = recommend_try_world [OF t]
  have "\<exists>es. events w' = events w @ es \<and> calls_within st 2 1 2 1 es
           \<and> posts_carry sv st (events w) es c"
  proof (cases "w' = w")
    case True
    then show ?thesis
      using calls_within_mono [OF calls_within_Nil [of st], of 2 1 2 1]
      by (intro exI [of _ "[]"]) simp
  next
    case False
    then have "stage_step sv st 2 1 2 1 (w\<lparr>candidate_object := c\<rparr>) w'" using tw by blast
    then show ?thesis unfolding stage_step_def by auto
  qed
  moreover have "snd (recommend st sv c w) = w'"
    using True t by (cases a) (simp_all add: recommend_def Let_def)
  moreover have "fst (recommend st sv c w) = Hangs \<longrightarrow> a = Stuck"
    using True t
    by (cases a) (auto simp: recommend_def Let_def recommend_catch_def split: outcome.splits sum.splits)
  ultimately show ?thesis using tw by auto
qed

lemma recommend_after_save:
  assumes "validateCandidate (mappings st) c = []"
    and "dbService sv = Some db"
    and "\<forall>m \<in> set (requiredMethods (mappings st)). db m"
    and "retryOperation (save_operation st sv) 2 1000 (w\<lparr>candidate_object := c\<rparr>) = (x, w1)"
  shows "\<exists>rest. events (snd (recommend st sv c w)) = events w1 @ rest"
proof (cases x)
  case None
  then show ?thesis using retry_save_world [OF assms(4)] by simp
next
  case (Some out)
  show ?thesis
  proof (cases out)
    case (Thrown e)
    then have "snd (recommend st sv c w) = w1"
      using assms Some methods_present [OF assms(3)]
      by (simp add: recommend_def recommend_try_def Let_def)
    then show ?thesis by simp
  next
    case (Returned cid)
    obtain a w2 where f: "fetch_stage st sv (now w) cid w1 = (a, w2)"
      by (cases "fetch_stage st sv (now w) cid w1") auto
    have "snd (recommend st sv c w) = w2"
      using assms Some Returned f methods_present [OF assms(3)]
      by (cases a) (simp_all add: recommend_def recommend_try_def Let_def)
    then show ?thesis using fetch_stage_world [OF f] stage_step_events by metis
  qed
qed

lemma fetch_stage_after_fetch:
  assumes "fetch_stage st sv t cid w1 = (a, w')" "fetch_operation st sv w1 = (y, w2)"
  shows "\<exists>rest. events w' = events w2 @ rest"
proof (cases "\<exists>cs. y = Some (Returned (JArr cs))")
  case True
  then obtain cs where "y = Some (Returned (JArr cs))" by blast
  then have "scoring_stage st sv t cs cid w2 = (a, w')"
    using assms by (simp add: fetch_stage_def)
  from scoring_stage_world [OF this] show ?thesis using stage_step_events by metis
next
  case False
  have "w' = w2"
  proof (cases y)
    case None
    then show ?thesis using assms by (simp add: fetch_stage_def)
  next
    case (Some out)
    show ?thesis
    proof (cases out)
      case (Thrown e)
      then show ?thesis using assms Some by (simp add: fetch_stage_def)
    next
      case (Returned careers)
      then show ?thesis using assms Some False by (cases careers) (simp_all add: fetch_stage_def)
    qed
  qed
  then show ?thesis by simp
qed

lemma scoring_stage_after_retry:
  assumes "scoring_stage st sv t cs cid w2 = (a, w')"
    and "retryOperation (scoring_operation st sv cs) 2 2000 w2 = (x, w4)"
  shows "\<exists>rest. events w' = events w4 @ rest"
proof (cases "\<exists>recs len. persist_stage st sv t cs cid recs len w4 = (a, w')")
  case True
  then obtain recs len where "persist_stage st sv t cs cid recs len w4 = (a, w')" by blast
  from persist_stage_world [OF this] show ?thesis using stage_step_events by metis
next
  case False
  then have "w' = w4"
    using assms by (auto simp: scoring_stage_def split: option.splits outcome.splits)
  then show ?thesis by simp
qed

lemma recommend_at_fetch:
  assumes "validateCandidate (mappings st) c = []"
    and "dbService sv = Some db"
    and "\<forall>m \<in> set (requiredMethods (mappings st)). db m"
    and "retryOperation (save_operation st sv) 2 1000 (w\<lparr>candidate_object := c\<rparr>) =
           (Some (Returned cid), w1)"
  shows "snd (recommend st sv c w) = snd (fetch_stage st sv (now w) cid w1)"
proof -
  obtain a w2 where f: "fetch_stage st sv (now w) cid w1 = (a, w2)"
    by (cases "fetch_stage st sv (now w) cid w1") auto
  show ?thesis
    using assms f methods_present [OF assms(3)]
    by (cases a) (simp_all add: recommend_def recommend_try_def Let_def)
qed

text \<open>
  Claim C1, as amended. Saving and Scoring are wrapped in the retry wrapper with a budget
  of two attempts: when the first attempt of save fails with a thrown value other than
  \<^verbatim>\<open>undefined\<close> and \<^verbatim>\<open>null\<close>, the handler pauses \<open>1000\<close> ms and calls save once more (and when
  it succeeds, no pause follows the call); when the first POST to the scoring service
  fails so, the handler pauses \<open>2000\<close> ms and posts once more. One request calls the save
  method at most twice, the fetch method at most once, the update method at most once, and
  posts at most twice. Each attempt of the three storage steps runs under the timeout
  wrapper: it settles within \<open>DB_CONNECTION_TIMEOUT\<close>, so the handler waits for ever only
  if a POST never settles; the POST carries the timeout of the HTTP client instead.
\<close>

theorem recommend_retries_and_timeouts:
  "events (snd (recommend st sv candidateRaw w)) =
     events w @ new_events w (snd (recommend st sv candidateRaw w))
   \<and> (\<forall>m. db_calls m (new_events w (snd (recommend st sv candidateRaw w))) \<le>
            (if m = dbMethods_saveCandidate (mappings st) then 2 else 0)
          + (if m = dbMethods_fetchCareers (mappings st) then 1 else 0)
          + (if m = dbMethods_updateRecommendations (mappings st) then 1 else 0))
   \<and> posts (new_events w (snd (recommend st sv candidateRaw w))) \<le> 2
   \<and> (fst (recommend st sv candidateRaw w) = Hangs \<longrightarrow>
        (\<exists>h t c. is_post c \<and> respond sv h t c = Never))
   \<and> (fst (save_operation st sv v) \<noteq> None
        \<and> now (snd (save_operation st sv v)) \<le> now v + DB_CONNECTION_TIMEOUT st)
   \<and> (fst (fetch_operation st sv v) \<noteq> None
        \<and> now (snd (fetch_operation st sv v)) \<le> now v + DB_CONNECTION_TIMEOUT st)
   \<and> (fst (update_operation st sv candidateId recommendations v) \<noteq> None
        \<and> now (snd (update_operation st sv candidateId recommendations v))
            \<le> now v + DB_CONNECTION_TIMEOUT st)
   \<and> (validateCandidate (mappings st) candidateRaw = [] \<and> dbService sv = Some db
        \<and> (\<forall>m \<in> set (requiredMethods (mappings st)). db m)
        \<and> save_operation st sv (w\<lparr>candidate_object := candidateRaw\<rparr>) = (Some (Thrown e), w_first)
        \<and> e \<noteq> JUndefined \<and> e \<noteq> JNull \<longrightarrow>
        (\<exists>rest. new_events w (snd (recommend st sv candidateRaw w)) =
                  DbCall (dbMethods_saveCandidate (mappings st)) [JObj candidateRaw]
                  # Delay 1000
                  # DbCall (dbMethods_saveCandidate (mappings st)) [JObj (candidate_object w_first)]
                  # rest))
   \<and> (validateCandidate (mappings st) candidateRaw = [] \<and> dbService sv = Some db
        \<and> (\<forall>m \<in> set (requiredMethods (mappings st)). db m)
        \<and> save_operation st sv (w\<lparr>candidate_object := candidateRaw\<rparr>) = (Some (Returned savedId), w_first) \<longrightarrow>
        (\<exists>rest. new_events w (snd (recommend st sv candidateRaw w)) =
                  DbCall (dbMethods_saveCandidate (mappings st)) [JObj candidateRaw] # rest
                \<and> take 1 rest \<noteq> [Delay 1000]))
   \<and> (validateCandidate (mappings st) candidateRaw = [] \<and> dbService sv = Some db
        \<and> (\<forall>m \<in> set (requiredMethods (mappings st)). db m)
        \<and> retryOperation (save_operation st sv) 2 1000 (w\<lparr>candidate_object := candidateRaw\<rparr>) =
            (Some (Returned savedId), w_saved)
        \<and> fetch_operation st sv w_saved = (Some (Returned (JArr careers)), w_fetched)
        \<and> scoring_operation st sv careers w_fetched = (Some (Thrown e'), w_posted)
        \<and> e' \<noteq> JUndefined \<and> e' \<noteq> JNull \<longrightarrow>
        (\<exists>rest. events (snd (recommend st sv candidateRaw w)) =
                  events w_posted
                  @ Delay 2000
                  # HttpPost (AI_SERVICE_URL st)
                      (JObj (aiPayload_of (mappings st) (candidate_object w_posted) careers))
                      (AI_SERVICE_TIMEOUT st)
                      [(''Content-Type'', ''application/json''),
                       (''X-Request-ID'', ''rec-'' @ show_nat (now w_posted + 2000))]
                  # rest))"
proof -
  let ?w' = "snd (recommend st sv candidateRaw w)"
  let ?ws = "w\<lparr>candidate_object := candidateRaw\<rparr>"
  let ?save = "dbMethods_saveCandidate (mappings st)"
  from recommend_world [of st sv candidateRaw w] obtain es where es:
    "events ?w' = events w @ es" "calls_within st 2 1 2 1 es"
    "fst (recommend st sv candidateRaw w) = Hangs \<longrightarrow> (\<exists>h t c. is_post c \<and> respond sv h t c = Never)"
    by (elim exE conjE)
  have n: "new_events w ?w' = es"
    using es(1) by (rule new_events_append)
  have calls: "\<forall>m. db_calls m es \<le>
            (if m = dbMethods_saveCandidate (mappings st) then 2 else 0)
          + (if m = dbMethods_fetchCareers (mappings st) then 1 else 0)
          + (if m = dbMethods_updateRecommendations (mappings st) then 1 else 0)"
    and posts: "posts es \<le> 2"
    using es(2) unfolding calls_within_def by blast+
  have t1: "fst (save_operation st sv v) \<noteq> None
        \<and> now (snd (save_operation st sv v)) \<le> now v + DB_CONNECTION_TIMEOUT st"
    using save_operation_world [of st sv v "fst (save_operation st sv v)" "snd (save_operation st sv v)"]
    by simp
  have t2: "fst (fetch_operation st sv v) \<noteq> None
        \<and> now (snd (fetch_operation st sv v)) \<le> now v + DB_CONNECTION_TIMEOUT st"
    using fetch_operation_world [of st sv v "fst (fetch_operation st sv v)" "snd (fetch_operation st sv v)"]
    by simp
  have t3: "fst (update_operation st sv candidateId recommendations v) \<noteq> None
        \<and> now (snd (update_operation st sv candidateId recommendations v))
            \<le> now v + DB_CONNECTION_TIMEOUT st"
    using update_operation_world [of st sv candidateId recommendations v
            "fst (update_operation st sv candidateId recommendations v)"
            "snd (update_operation st sv candidateId recommendations v)"]
    by simp
  have retried: "\<exists>rest. new_events w ?w' =
                  DbCall ?save [JObj candidateRaw] # Delay 1000
                  # DbCall ?save [JObj (candidate_object w_first)] # rest"
    if valid: "validateCandidate (mappings st) candidateRaw = []" and db: "dbService sv = Some db"
      and ms: "\<forall>m \<in> set (requiredMethods (mappings st)). db m"
      and s1: "save_operation st sv ?ws = (Some (Thrown e), w_first)"
      and e: "e \<noteq> JUndefined" "e \<noteq> JNull"
  proof -
    obtain y w_again where s2: "save_operation st sv (sleep 1000 w_first) = (y, w_again)"
      by (cases "save_operation st sv (sleep 1000 w_first)") auto
    obtain x where r: "retryOperation (save_operation st sv) 2 1000 ?ws = (x, w_again)"
      using retryOperation_2_retry [where operation = "save_operation st sv" and delay = 1000, OF s1 e] s2 last_attempt_snd [of "(y, w_again)"]
      by (cases "last_attempt (y, w_again)") simp
    from recommend_after_save [OF valid db ms r] obtain rest where
      "events ?w' = events w_again @ rest" by blast
    moreover have "events w_again = events w @ [DbCall ?save [JObj candidateRaw], Delay 1000,
                                           DbCall ?save [JObj (candidate_object w_first)]]"
      using save_operation_world [OF s1] save_operation_world [OF s2] by (simp add: sleep_def)
    ultimately show ?thesis by (simp add: new_events_def)
  qed
  have direct: "\<exists>rest. new_events w ?w' = DbCall ?save [JObj candidateRaw] # rest
                     \<and> take 1 rest \<noteq> [Delay 1000]"
    if valid: "validateCandidate (mappings st) candidateRaw = []" and db: "dbService sv = Some db"
      and ms: "\<forall>m \<in> set (requiredMethods (mappings st)). db m"
      and s1: "save_operation st sv ?ws = (Some (Returned savedId), w_first)"
  proof -
    have r: "retryOperation (save_operation st sv) 2 1000 ?ws = (Some (Returned savedId), w_first)"
      using s1 by (simp add: retryOperation_2)
    obtain y w_fetched where f: "fetch_operation st sv w_first = (y, w_fetched)"
      by (cases "fetch_operation st sv w_first") auto
    obtain a w_final where fs: "fetch_stage st sv (now w) savedId w_first = (a, w_final)"
      by (cases "fetch_stage st sv (now w) savedId w_first") auto
    have "?w' = w_final" using recommend_at_fetch [OF valid db ms r] fs by simp
    moreover from fetch_stage_after_fetch [OF fs f] obtain rest where
      "events w_final = events w_fetched @ rest" by blast
    moreover have "events w_fetched = events w @ [DbCall ?save [JObj candidateRaw],
                     DbCall (dbMethods_fetchCareers (mappings st))
                       [JObj (careerFilter_of (mappings st) (candidate_object w_first))]]"
      using save_operation_world [OF s1] fetch_operation_world [OF f] by simp
    ultimately show ?thesis by (simp add: new_events_def)
  qed
  have scoring: "\<exists>rest. events ?w' =
                  events w_posted
                  @ Delay 2000
                  # HttpPost (AI_SERVICE_URL st)
                      (JObj (aiPayload_of (mappings st) (candidate_object w_posted) careers))
                      (AI_SERVICE_TIMEOUT st)
                      [(''Content-Type'', ''application/json''),
                       (''X-Request-ID'', ''rec-'' @ show_nat (now w_posted + 2000))]
                  # rest"
    if valid: "validateCandidate (mappings st) candidateRaw = []" and db: "dbService sv = Some db"
      and ms: "\<forall>m \<in> set (requiredMethods (mappings st)). db m"
      and r: "retryOperation (save_operation st sv) 2 1000 ?ws = (Some (Returned savedId), w_saved)"
      and f: "fetch_operation st sv w_saved = (Some (Returned (JArr careers)), w_fetched)"
      and p1: "scoring_operation st sv careers w_fetched = (Some (Thrown e'), w_posted)"
      and e: "e' \<noteq> JUndefined" "e' \<noteq> JNull"
  proof -
    obtain a w_final where ss: "scoring_stage st sv (now w) careers savedId w_fetched = (a, w_final)"
      by (cases "scoring_stage st sv (now w) careers savedId w_fetched") auto
    have "fetch_stage st sv (now w) savedId w_saved = (a, w_final)"
      using f ss by (simp add: fetch_stage_def)
    then have w': "?w' = w_final" using recommend_at_fetch [OF valid db ms r] by simp
    obtain y w_second where p2: "scoring_operation st sv careers (sleep 2000 w_posted) = (y, w_second)"
      by (cases "scoring_operation st sv careers (sleep 2000 w_posted)") auto
    obtain x where rs: "retryOperation (scoring_operation st sv careers) 2 2000 w_fetched = (x, w_second)"
      using retryOperation_2_retry [where operation = "scoring_operation st sv careers" and delay = 2000, OF p1 e] p2 last_attempt_snd [of "(y, w_second)"]
      by (cases "last_attempt (y, w_second)") simp
    from scoring_stage_after_retry [OF ss rs] obtain rest where
      "events w_final = events w_second @ rest" by blast
    moreover have "events w_second = events w_posted @ [Delay 2000,
                     HttpPost (AI_SERVICE_URL st)
                       (JObj (aiPayload_of (mappings st) (candidate_object w_posted) careers))
                       (AI_SERVICE_TIMEOUT st)
                       [(''Content-Type'', ''application/json''),
                        (''X-Request-ID'', ''rec-'' @ show_nat (now w_posted + 2000))]]"
      using scoring_operation_world [OF p2] by (simp add: sleep_def)
    ultimately show ?thesis using w' by simp
  qed
  show ?thesis
    unfolding n
    using es(1,3) calls posts t1 t2 t3 retried [unfolded n] direct [unfolded n] scoring
    by (intro conjI impI) blast+
qed

lemma run_post_never:
  "fst (recommend default_settings (scripted_services 0 fetch_ok Never update_ok) ada w0) = Hangs"
  by (simp add: run_defs)

theorem recommend_retries_and_timeouts_witness:
  "take 3 (new_events w0 (snd (recommend default_settings
                                 (scripted_services 1 fetch_ok post_ok update_ok) ada w0))) =
     [DbCall ''saveCandidate'' [JObj ada], Delay 1000, DbCall ''saveCandidate'' [JObj ada]]
   \<and> take 1 (new_events w0 (snd (recommend default_settings
                                 (scripted_services 0 fetch_ok post_refused update_ok) ada w0))) =
     [DbCall ''saveCandidate'' [JObj ada]]
   \<and> take 1 (drop 1 (new_events w0 (snd (recommend default_settings
                                 (scripted_services 0 fetch_ok post_refused update_ok) ada w0)))) \<noteq>
     [Delay 1000]
   \<and> take 5 (events (snd (recommend default_settings
                            (scripted_services 0 fetch_ok post_refused update_ok) ada w0))) =
     [DbCall ''saveCandidate'' [JObj ada],
      DbCall ''fetchCareers'' [JObj [(''sector'', JStr ''tech'')]],
      ada_post 50, Delay 2000, ada_post 2053]
   \<and> db_calls ''saveCandidate''
       (new_events w0 (snd (recommend default_settings
                              (scripted_services 0 fetch_ok post_refused update_ok) ada w0))) \<le> 2
   \<and> db_calls ''fetchCareers''
       (new_events w0 (snd (recommend default_settings
                              (scripted_services 0 fetch_ok post_refused update_ok) ada w0))) \<le> 1
   \<and> db_calls ''updateCandidateRecommendations''
       (new_events w0 (snd (recommend default_settings
                              (scripted_services 0 fetch_ok post_refused update_ok) ada w0))) \<le> 1
   \<and> posts
       (new_events w0 (snd (recommend default_settings
                              (scripted_services 0 fetch_ok post_refused update_ok) ada w0))) \<le> 2
   \<and> fst (recommend default_settings (scripted_services 0 fetch_ok Never update_ok) ada w0) = Hangs
   \<and> (\<exists>h t c. is_post c \<and> respond (scripted_services 0 fetch_ok Never update_ok) h t c = Never)"
proof -
  let ?flaky = "scripted_services 1 fetch_ok post_ok update_ok"
  let ?refused = "scripted_services 0 fetch_ok post_refused update_ok"
  let ?never = "scripted_services 0 fetch_ok Never update_ok"
  let ?S = "DbCall ''saveCandidate'' [JObj ada]"
  let ?F = "DbCall ''fetchCareers'' [JObj [(''sector'', JStr ''tech'')]]"
  let ?w_first = "\<lparr> now = 40, events = [?S], candidate_object = ada \<rparr>"
  let ?w_saved = "\<lparr> now = 30, events = [?S], candidate_object = ada \<rparr>"
  let ?w_fetched = "\<lparr> now = 50, events = [?S, ?F], candidate_object = ada \<rparr>"
  let ?w_posted = "\<lparr> now = 53, events = [?S, ?F, ada_post 50], candidate_object = ada \<rparr>"
  let ?refusal = "Error ''connect ECONNREFUSED 127.0.0.1:5001'' (Some ''ECONNREFUSED'')"
  note flaky = recommend_retries_and_timeouts
                 [where st = default_settings and sv = ?flaky and candidateRaw = ada and w = w0
                    and db = all_methods and e = "deadlock 0" and w_first = ?w_first]
  note refused = recommend_retries_and_timeouts
                 [where st = default_settings and sv = ?refused and candidateRaw = ada and w = w0
                    and db = all_methods and savedId = "JStr ''c1''" and w_first = ?w_saved
                    and w_saved = ?w_saved and careers = "[JObj [(''title'', JStr ''Engineer'')]]"
                    and w_fetched = ?w_fetched and e' = ?refusal and w_posted = ?w_posted]
  note never = recommend_retries_and_timeouts
                 [where st = default_settings and sv = ?never and candidateRaw = ada and w = w0]
  have valid: "validateCandidate (mappings default_settings) ada = []"
    by (simp add: run_defs)
  have methods: "\<forall>m \<in> set (requiredMethods (mappings default_settings)). all_methods m"
    by (simp add: run_defs)
  have db: "dbService ?flaky = Some all_methods" "dbService ?refused = Some all_methods"
    by (simp_all add: scripted_services_def)
  have s1: "save_operation default_settings ?flaky (w0\<lparr>candidate_object := ada\<rparr>) =
              (Some (Thrown (deadlock 0)), ?w_first)"
    by (simp add: run_defs)
  have e: "deadlock 0 \<noteq> JUndefined" "deadlock 0 \<noteq> JNull"
    by (simp_all add: deadlock_def)
  have s2: "save_operation default_settings ?refused (w0\<lparr>candidate_object := ada\<rparr>) =
              (Some (Returned (JStr ''c1'')), ?w_saved)"
    by (simp add: run_defs)
  then have r: "retryOperation (save_operation default_settings ?refused) 2 1000
                  (w0\<lparr>candidate_object := ada\<rparr>) = (Some (Returned (JStr ''c1'')), ?w_saved)"
    by (simp add: retryOperation_2)
  have f: "fetch_operation default_settings ?refused ?w_saved =
             (Some (Returned (JArr [JObj [(''title'', JStr ''Engineer'')]])), ?w_fetched)"
    by (simp add: run_defs)
  have p: "scoring_operation default_settings ?refused [JObj [(''title'', JStr ''Engineer'')]] ?w_fetched =
             (Some (Thrown ?refusal), ?w_posted)"
    by (simp add: run_defs)
  from flaky valid methods db(1) s1 e obtain rest1 where
    c1: "new_events w0 (snd (recommend default_settings ?flaky ada w0)) =
           DbCall (dbMethods_saveCandidate (mappings default_settings)) [JObj ada] # Delay 1000
           # DbCall (dbMethods_saveCandidate (mappings default_settings)) [JObj (candidate_object ?w_first)]
           # rest1"
    by blast
  from refused valid methods db(2) s2 obtain rest2 where
    c2: "new_events w0 (snd (recommend default_settings ?refused ada w0)) =
           DbCall (dbMethods_saveCandidate (mappings default_settings)) [JObj ada] # rest2"
        "take 1 rest2 \<noteq> [Delay 1000]"
    by blast
  have "?refusal \<noteq> JUndefined" "?refusal \<noteq> JNull" by simp_all
  with refused valid methods db(2) r f p obtain rest3 where
    c3: "events (snd (recommend default_settings ?refused ada w0)) =
           events ?w_posted
           @ Delay 2000
           # HttpPost (AI_SERVICE_URL default_settings)
               (JObj (aiPayload_of (mappings default_settings) (candidate_object ?w_posted)
                        [JObj [(''title'', JStr ''Engineer'')]]))
               (AI_SERVICE_TIMEOUT default_settings)
               [(''Content-Type'', ''application/json''),
                (''X-Request-ID'', ''rec-'' @ show_nat (now ?w_posted + 2000))]
           # rest3"
    by blast
  from refused have b: "db_calls m (new_events w0 (snd (recommend default_settings ?refused ada w0))) \<le>
            (if m = dbMethods_saveCandidate (mappings default_settings) then 2 else 0)
          + (if m = dbMethods_fetchCareers (mappings default_settings) then 1 else 0)
          + (if m = dbMethods_updateRecommendations (mappings default_settings) then 1 else 0)" for m
    by blast
  from refused have c4: "posts (new_events w0 (snd (recommend default_settings ?refused ada w0))) \<le> 2"
    by blast
  from never run_post_never
  have c5: "\<exists>h t c. is_post c \<and> respond ?never h t c = Never"
    by blast
  have t1: "take 3 (new_events w0 (snd (recommend default_settings ?flaky ada w0))) =
              [?S, Delay 1000, ?S]"
    unfolding c1 by (simp add: default_names)
  have t2: "take 1 (new_events w0 (snd (recommend default_settings ?refused ada w0))) = [?S]"
    "take 1 (drop 1 (new_events w0 (snd (recommend default_settings ?refused ada w0)))) \<noteq> [Delay 1000]"
    unfolding c2(1) using c2(2) by (simp_all add: default_names)
  have t3: "take 5 (events (snd (recommend default_settings ?refused ada w0))) =
              [?S, ?F, ada_post 50, Delay 2000, ada_post 2053]"
    unfolding c3 by (simp add: run_defs)
  show ?thesis
    using t1 t2 t3 b [of "''saveCandidate''"] b [of "''fetchCareers''"]
      b [of "''updateCandidateRecommendations''"] c4 c5 run_post_never
    by (simp add: default_names)
qed

theorem save_is_retried_counterexample:
  "fst (save_operation default_settings (scripted_services 1 fetch_ok post_ok update_ok)
          (w0\<lparr>candidate_object := ada\<rparr>)) =
     Some (Thrown (Error ''deadlock 0'' None))
   \<and> db_calls ''saveCandidate''
       (events (snd (recommend default_settings (scripted_services 1 fetch_ok post_ok update_ok) ada w0))) = 2
   \<and> reply_status (fst (recommend default_settings (scripted_services 1 fetch_ok post_ok update_ok) ada w0)) =
       Some 200"
proof -
  have "fst (save_operation default_settings (scripted_services 1 fetch_ok post_ok update_ok)
               (w0\<lparr>candidate_object := ada\<rparr>)) =
          Some (Thrown (Error ''deadlock 0'' None))"
    by (simp add: run_defs)
  then show ?thesis
    by (simp only: run_flaky_save) (simp add: db_calls_def reply_status_def ada_post_def)
qed

text \<open>
  Claim C3. With the default field mappings, let the storage module offer the four
  required methods and leave the candidate object as it is, let \<^verbatim>\<open>saveCandidate\<close> of the
  candidate \<^verbatim>\<open>{name: "Ada", sector: "tech"}\<close> give the id \<^verbatim>\<open>"c1"\<close>, \<^verbatim>\<open>fetchCareers\<close> give
  \<^verbatim>\<open>[{title: "Engineer"}]\<close>, the scoring service answer with the data
  \<^verbatim>\<open>[{title: "Engineer", score: 0.9}]\<close> and the update succeed, each storage call within
  the timeout. Then the handler answers with status 200 and the body below: the id, the
  recommendations, the time spent, and the metadata with both counts equal to \<open>1\<close>
  (together with the names of the fields used).
\<close>

theorem end_to_end_success:
  assumes "mappings st = FIELD_MAPPINGS Map.empty"
    and "dbService sv = Some db"
    and "\<forall>m \<in> set (requiredMethods (mappings st)). db m"
    and "\<forall>h e. touch sv h e ada = ada"
    and "\<forall>h t. respond sv h t (DbCall ''saveCandidate'' [JObj ada]) = Settles d1 (Returned (JStr ''c1''))"
    and "d1 \<le> DB_CONNECTION_TIMEOUT st"
    and "\<forall>h t. respond sv h t (DbCall ''fetchCareers'' [JObj [(''sector'', JStr ''tech'')]]) =
           Settles d2 (Returned engineer_careers)"
    and "d2 \<le> DB_CONNECTION_TIMEOUT st"
    and "\<forall>h t hs. respond sv h t
             (HttpPost (AI_SERVICE_URL st)
                (JObj [(''candidate'', JObj ada), (''careers'', engineer_careers)])
                (AI_SERVICE_TIMEOUT st) hs) =
           Settles d3 (Returned (JObj response))"
    and "map_of response ''data'' = Some engineer_recommendations"
    and "\<forall>h t. respond sv h t
             (DbCall ''updateCandidateRecommendations'' [JStr ''c1'', engineer_recommendations]) =
           Settles d4 (Returned u)"
    and "d4 \<le> DB_CONNECTION_TIMEOUT st"
  shows "fst (recommend st sv ada w) =
           Answered
             \<lparr> status = 200,
               body = JObj [(''success'', JBool True),
                            (''candidateId'', JStr ''c1''),
                            (''recommendations'',
                               JArr [JObj [(''title'', JStr ''Engineer''), (''score'', JNum (9 / 10))]]),
                            (''processingTime'', JNum (of_nat (d1 + d2 + d3 + d4))),
                            (''metadata'',
                               JObj [(''careersAnalyzed'', JNum 1),
                                     (''recommendationsGenerated'', JNum 1),
                                     (''fieldsUsed'',
                                        JObj [(''candidateFields'', JArr [JStr ''name'', JStr ''sector'']),
                                              (''filterField'', JStr ''sector''),
                                              (''aiPayloadStructure'',
                                                 JArr [JStr ''candidate'', JStr ''careers''])])])] \<rparr>"
proof -
  have fm: "mappings st = FIELD_MAPPINGS Map.empty" by fact
  have valid: "validateCandidate (mappings st) ada = []"
    by (simp add: fm validateCandidate_def createCandidateSchema_def FIELD_MAPPINGS_def env_or_def
          get_field_def ada_def)
  have methods: "filter (\<lambda>method. \<not> db method) (requiredMethods (mappings st)) = []"
    using assms(3) by (rule methods_present)
  have names: "dbMethods_saveCandidate (mappings st) = ''saveCandidate''"
    "dbMethods_fetchCareers (mappings st) = ''fetchCareers''"
    "dbMethods_updateRecommendations (mappings st) = ''updateCandidateRecommendations''"
    "careerFilter_sector (mappings st) = ''sector''"
    "candidate_sector (mappings st) = ''sector''"
    "aiPayload_candidate (mappings st) = ''candidate''"
    "aiPayload_careers (mappings st) = ''careers''"
    by (simp_all add: fm FIELD_MAPPINGS_def env_or_def)
  have touch: "touch sv h e ada = ada" for h e using assms(4) by simp
  let ?cs = "[JObj [(''title'', JStr ''Engineer'')]]"
  let ?w0 = "w\<lparr>candidate_object := ada\<rparr>"
  let ?w1 = "?w0\<lparr>events := events w @ [DbCall ''saveCandidate'' [JObj ada]], now := now w + d1\<rparr>"
  have save: "retryOperation (save_operation st sv) 2 1000 ?w0 = (Some (Returned (JStr ''c1'')), ?w1)"
    by (simp add: retryOperation_2)
       (simp add: save_operation_def invoke_def names assms(5,6) withTimeout_def touch)
  let ?w2 = "?w1\<lparr>events := events ?w1 @ [DbCall ''fetchCareers'' [JObj [(''sector'', JStr ''tech'')]]],
                  now := now ?w1 + d2\<rparr>"
  have fetch_op: "fetch_operation st sv ?w1 = (Some (Returned (JArr ?cs)), ?w2)"
    using assms(7,8)
    by (simp add: fetch_operation_def names careerFilter_of_def set_field_def get_field_def ada_def
          invoke_def withTimeout_def engineer_careers_def touch [unfolded ada_def])
  let ?post = "HttpPost (AI_SERVICE_URL st)
                 (JObj [(''candidate'', JObj ada), (''careers'', engineer_careers)])
                 (AI_SERVICE_TIMEOUT st)
                 [(''Content-Type'', ''application/json''), (''X-Request-ID'', ''rec-'' @ show_nat (now ?w2))]"
  let ?w3 = "?w2\<lparr>events := events ?w2 @ [?post], now := now ?w2 + d3\<rparr>"
  have score_op: "scoring_operation st sv ?cs ?w2 = (Some (Returned (JObj response)), ?w3)"
    using assms(9,10)
    by (simp add: scoring_operation_def invoke_def get_field_def engineer_recommendations_def
          names aiPayload_of_def set_field_def engineer_careers_def touch)
  have score: "retryOperation (scoring_operation st sv ?cs) 2 2000 ?w2 =
                 (Some (Returned (JObj response)), ?w3)"
    using score_op by (simp add: retryOperation_2)
  let ?upd = "DbCall ''updateCandidateRecommendations'' [JStr ''c1'', engineer_recommendations]"
  let ?w4 = "?w3\<lparr>events := events ?w3 @ [?upd], now := now ?w3 + d4\<rparr>"
  let ?ok = "success_response st ada ?cs (JStr ''c1'') engineer_recommendations (JNum 1)
               (d1 + d2 + d3 + d4)"
  have persist: "persist_stage st sv (now w) ?cs (JStr ''c1'') engineer_recommendations (JNum 1) ?w3 =
                 (Responded ?ok, ?w4)"
    using assms(11,12)
    by (simp add: persist_stage_def update_operation_def invoke_def names withTimeout_def add.assoc touch)
  have scoring: "scoring_stage st sv (now w) ?cs (JStr ''c1'') ?w2 = (Responded ?ok, ?w4)"
    using score persist assms(10)
    by (simp add: scoring_stage_def get_field_def engineer_recommendations_def)
  have fetch: "fetch_stage st sv (now w) (JStr ''c1'') ?w1 = (Responded ?ok, ?w4)"
    using scoring fetch_op by (simp add: fetch_stage_def)
  have "recommend_try st sv (now w) ada w = (Responded ?ok, JStr ''c1'', ?w4)"
    using save fetch methods assms(2) by (simp add: recommend_try_def Let_def)
  then show ?thesis
    using valid
    by (simp add: recommend_def success_response_def names js_or_def object_keys_def ada_def
          aiPayload_of_def set_field_def engineer_recommendations_def Let_def)
qed

theorem end_to_end_success_witness:
  "fst (recommend default_settings (scripted_services 0 fetch_ok post_ok update_ok) ada w0) =
     Answered
       \<lparr> status = 200,
         body = JObj [(''success'', JBool True),
                      (''candidateId'', JStr ''c1''),
                      (''recommendations'',
                         JArr [JObj [(''title'', JStr ''Engineer''), (''score'', JNum (9 / 10))]]),
                      (''processingTime'', JNum 160),
                      (''metadata'',
                         JObj [(''careersAnalyzed'', JNum 1),
                               (''recommendationsGenerated'', JNum 1),
                               (''fieldsUsed'',
                                  JObj [(''candidateFields'', JArr [JStr ''name'', JStr ''sector'']),
                                        (''filterField'', JStr ''sector''),
                                        (''aiPayloadStructure'',
                                           JArr [JStr ''candidate'', JStr ''careers''])])])] \<rparr>"
  using end_to_end_success
          [where st = default_settings and sv = "scripted_services 0 fetch_ok post_ok update_ok"
             and db = all_methods and ?d1.0 = 30 and ?d2.0 = 20 and ?d3.0 = 100 and ?d4.0 = 10
             and response = "[(''status'', JNum 200), (''data'', engineer_recommendations)]"
             and u = JUndefined and w = w0]
  by (simp add: scenario_defs all_methods_def requiredMethods_def)

lemma recommend_Raised:
  assumes "validateCandidate (mappings st) c = []"
    and "recommend_try st sv (now w) c w = (Raised err, cid, w')"
  shows "recommend st sv c w = (recommend_catch st err cid (now w' - now w), w')"
  using assms by (simp add: recommend_def Let_def)

lemma statusCode_of_string:
  assumes "get_member err ''message'' = Returned (JStr m)"
    and "get_member err ''code'' = Returned c"
  shows "statusCode_of err =
           Inr (if c = JStr ''ECONNREFUSED'' then 503
                else if str_includes m ''timeout'' then 408
                else if str_includes m ''Validation failed'' then 400
                else 500)"
  using assms by (simp add: statusCode_of_def Let_def)

lemma statusCode_of_range:
  "statusCode_of err = Inr statusCode \<Longrightarrow> statusCode \<in> {500, 400, 408, 503}"
  by (auto simp: statusCode_of_def Let_def split: outcome.splits sum.splits if_splits)

lemma recommend_catch_Answered:
  "recommend_catch st err cid t = Answered r \<Longrightarrow>
   \<exists>statusCode m. r = failure_response st statusCode m cid t \<and> statusCode_of err = Inr statusCode"
  by (auto simp: recommend_catch_def split: outcome.splits sum.splits)

lemma member_readable:
  "get_member err k = Returned v \<Longrightarrow> \<exists>c. get_member err k' = Returned c"
  by (cases err) simp_all

lemma js_includes_Inr:
  "(\<exists>s. m = JStr s) \<or> (\<exists>xs. m = JArr xs) \<Longrightarrow> \<exists>b. js_includes m sub = Inr b"
  by auto

lemma js_includes_Inl:
  "\<forall>s. m \<noteq> JStr s \<Longrightarrow> \<forall>xs. m \<noteq> JArr xs \<Longrightarrow> \<exists>te. js_includes m sub = Inl te"
  by (cases m) simp_all

lemma recommend_catch_searchable:
  assumes "searchable_message err"
  shows "\<exists>r. recommend_catch st err cid t = Answered r \<and> status r \<noteq> 200"
proof -
  from assms obtain m where m: "get_member err ''message'' = Returned m"
    and s: "(\<exists>s. m = JStr s) \<or> (\<exists>xs. m = JArr xs)"
    by (auto simp: searchable_message_def split: outcome.splits jsval.splits)
  from member_readable [OF m] obtain c where c: "get_member err ''code'' = Returned c" by blast
  from js_includes_Inr [OF s] obtain v where v: "js_includes m ''Validation failed'' = Inr v" by blast
  from js_includes_Inr [OF s] obtain t' where t': "js_includes m ''timeout'' = Inr t'" by blast
  obtain statusCode where sc: "statusCode_of err = Inr statusCode"
    using m c v t' by (simp add: statusCode_of_def)
  then have "recommend_catch st err cid t = Answered (failure_response st statusCode m cid t)"
    using m by (simp add: recommend_catch_def)
  moreover have "statusCode \<noteq> 200" using statusCode_of_range [OF sc] by auto
  ultimately show ?thesis by (simp add: failure_response_def)
qed

lemma recommend_catch_unsearchable:
  assumes "\<not> searchable_message err"
  shows "\<exists>te. recommend_catch st err cid t = Threw te"
proof (cases "get_member err ''message''")
  case (Thrown te)
  then show ?thesis by (simp add: recommend_catch_def)
next
  case (Returned m)
  then have "\<forall>s. m \<noteq> JStr s" "\<forall>xs. m \<noteq> JArr xs"
    using assms by (auto simp: searchable_message_def)
  from js_includes_Inl [OF this] obtain te where "js_includes m ''Validation failed'' = Inl te"
    by blast
  then have "statusCode_of err = Inl te" using Returned by (simp add: statusCode_of_def)
  then show ?thesis using Returned by (simp add: recommend_catch_def)
qed

text \<open>
  A thrown value that is no \<^verbatim>\<open>Error\<close>: the \<^verbatim>\<open>catch\<close> block reads its message, \<^verbatim>\<open>undefined\<close>, and
  throws on \<^verbatim>\<open>includes\<close>; the handler sends no response.
\<close>

lemma run_fetch_rejects_string:
  "recommend default_settings (scripted_services 0 fetch_rejects_string post_ok update_ok) ada w0 =
     (Threw (Error ''Cannot read properties of undefined (reading 'includes')'' None),
      \<lparr> now = 35,
        events = [DbCall ''saveCandidate'' [JObj ada],
                  DbCall ''fetchCareers'' [JObj [(''sector'', JStr ''tech'')]]],
        candidate_object = ada \<rparr>)"
  by (simp add: run_defs fetch_rejects_string_def)

text \<open>
  Claim C6, as amended. A thrown value that reaches the \<^verbatim>\<open>catch\<close> of \<^verbatim>\<open>/api/recommend\<close> and
  whose message is a string is answered with the body \<^verbatim>\<open>{success: false, error: "AI
  recommendation failed", candidateId, processingTime, details}\<close> and with the status: 503
  when its code is \<^verbatim>\<open>ECONNREFUSED\<close>; else 408 when its message contains \<^verbatim>\<open>timeout\<close>; else 400
  when its message contains \<^verbatim>\<open>Validation failed\<close>; else 500. The errors that the timeout
  wrapper makes are always answered with 408.
\<close>

theorem failure_classification:
  assumes "validateCandidate (mappings st) candidateRaw = []"
    and "recommend_try st sv (now w) candidateRaw w = (Raised err, candidateId, w')"
    and "get_member err ''message'' = Returned (JStr m)"
    and "get_member err ''code'' = Returned c"
  shows "recommend st sv candidateRaw w =
           (Answered
              \<lparr> status =
                  (if c = JStr ''ECONNREFUSED'' then 503
                   else if str_includes m ''timeout'' then 408
                   else if str_includes m ''Validation failed'' then 400
                   else 500),
                body = JObj [(''success'', JBool False),
                             (''error'', JStr ''AI recommendation failed''),
                             (''candidateId'', candidateId),
                             (''processingTime'', JNum (of_nat (now w' - now w))),
                             (''details'',
                                if NODE_ENV st = Some ''development'' then JStr m
                                else JUndefined)] \<rparr>,
            w')
       \<and> statusCode_of (timeout_error operation timeoutMs) = Inr 408"
  using recommend_Raised [OF assms(1,2)] statusCode_of_string [OF assms(3,4)] assms(3)
    statusCode_timeout_error
  by (simp add: recommend_catch_def failure_response_def)

theorem failure_classification_witness:
  "recommend default_settings (scripted_services 0 fetch_ok post_refused update_ok) ada w0 =
     (Answered
        \<lparr> status = 503,
          body = JObj [(''success'', JBool False),
                       (''error'', JStr ''AI recommendation failed''),
                       (''candidateId'', JStr ''c1''),
                       (''processingTime'', JNum 2056),
                       (''details'', JUndefined)] \<rparr>,
      \<lparr> now = 2056,
        events = [DbCall ''saveCandidate'' [JObj ada],
                  DbCall ''fetchCareers'' [JObj [(''sector'', JStr ''tech'')]],
                  ada_post 50, Delay 2000, ada_post 2053],
        candidate_object = ada \<rparr>)"
proof -
  let ?err = "Error ''connect ECONNREFUSED 127.0.0.1:5001'' (Some ''ECONNREFUSED'')"
  have valid: "validateCandidate (mappings default_settings) ada = []"
    by (simp add: run_defs)
  have raised: "recommend_try default_settings (scripted_services 0 fetch_ok post_refused update_ok)
                  (now w0) ada w0 =
                (Raised ?err, JStr ''c1'',
                 \<lparr> now = 2056,
                   events = [DbCall ''saveCandidate'' [JObj ada],
                             DbCall ''fetchCareers'' [JObj [(''sector'', JStr ''tech'')]],
                             ada_post 50, Delay 2000, ada_post 2053],
                   candidate_object = ada \<rparr>)"
    by (simp add: run_defs)
  have m: "get_member ?err ''message'' = Returned (JStr ''connect ECONNREFUSED 127.0.0.1:5001'')"
    and c: "get_member ?err ''code'' = Returned (JStr ''ECONNREFUSED'')"
    by simp_all
  show ?thesis
    using failure_classification [OF valid raised m c]
    by (simp add: default_settings_def w0_def)
qed

theorem other_error_not_500_counterexample:
  "respond (scripted_services 0 fetch_rejects_validation post_ok update_ok) [] 0
     (DbCall ''fetchCareers'' [JObj [(''sector'', JStr ''tech'')]]) =
     Settles 5 (Thrown (Error ''Validation failed: unknown sector'' None))
   \<and> reply_status
       (fst (recommend default_settings (scripted_services 0 fetch_rejects_validation post_ok update_ok) ada w0)) =
     Some 400"
proof -
  have "respond (scripted_services 0 fetch_rejects_validation post_ok update_ok) [] 0
     (DbCall ''fetchCareers'' [JObj [(''sector'', JStr ''tech'')]]) =
     Settles 5 (Thrown (Error ''Validation failed: unknown sector'' None))"
    by (simp add: scenario_defs fetch_rejects_validation_def)
  then show ?thesis
    by (simp only: run_fetch_rejects_validation) (simp add: reply_status_def)
qed

text \<open>
  Claim C4, as amended. Let the candidate pass validation. Every failure response that
  the handler sends carries \<^verbatim>\<open>success: false\<close> and a \<^verbatim>\<open>candidateId\<close>: the id that the save step
  returned when that step succeeded, \<^verbatim>\<open>null\<close> otherwise. A thrown value that reaches the
  \<^verbatim>\<open>catch\<close> block and whose message can be searched (a string or an array) is answered
  with such a response.
\<close>

theorem failure_report_carries_candidateId:
  assumes "validateCandidate (mappings st) candidateRaw = []"
  shows "(fst (recommend st sv candidateRaw w) = Answered r \<and> status r \<noteq> 200 \<longrightarrow>
            get_member (body r) ''success'' = Returned (JBool False)
            \<and> get_member (body r) ''candidateId'' =
                Returned (case saved_id st sv candidateRaw w of Some i \<Rightarrow> i | None \<Rightarrow> JNull))
       \<and> (recommend_try st sv (now w) candidateRaw w = (Raised err, candidateId, w')
            \<and> searchable_message err \<longrightarrow>
            (\<exists>r'. fst (recommend st sv candidateRaw w) = Answered r' \<and> status r' \<noteq> 200))"
proof -
  obtain a cid v where t: "recommend_try st sv (now w) candidateRaw w = (a, cid, v)"
    by (cases "recommend_try st sv (now w) candidateRaw w") auto
  from recommend_try_world [OF t]
  have ok: "\<forall>r. a = Responded r \<longrightarrow> status r = 200"
    and cid: "cid = (case saved_id st sv candidateRaw w of Some i \<Rightarrow> i | None \<Rightarrow> JNull)"
    by blast+
  have first: "get_member (body r) ''success'' = Returned (JBool False)
            \<and> get_member (body r) ''candidateId'' =
                Returned (case saved_id st sv candidateRaw w of Some i \<Rightarrow> i | None \<Rightarrow> JNull)"
    if r: "fst (recommend st sv candidateRaw w) = Answered r" and s: "status r \<noteq> 200"
  proof (cases a)
    case (Responded r')
    then have "r = r'" using assms r t by (simp add: recommend_def Let_def)
    then show ?thesis using ok Responded s by simp
  next
    case (Raised e)
    then have "recommend_catch st e cid (now v - now w) = Answered r"
      using assms r t by (simp add: recommend_def Let_def)
    from recommend_catch_Answered [OF this] obtain statusCode m where
      "r = failure_response st statusCode m cid (now v - now w)" by blast
    then show ?thesis using cid by (simp add: failure_response_def get_field_def)
  next
    case Stuck
    then show ?thesis using assms r t by (simp add: recommend_def Let_def)
  qed
  have second: "\<exists>r'. fst (recommend st sv candidateRaw w) = Answered r' \<and> status r' \<noteq> 200"
    if raised: "recommend_try st sv (now w) candidateRaw w = (Raised err, candidateId, w')"
      and searchable: "searchable_message err"
    using recommend_Raised [OF assms raised]
      recommend_catch_searchable [OF searchable, of st candidateId "now w' - now w"]
    by simp
  show ?thesis using first second by blast
qed

theorem failure_report_carries_candidateId_witness:
  "fst (recommend default_settings (scripted_services 0 Never post_ok update_ok) ada w0) =
     Answered \<lparr> status = 408, body = failure_body (JStr ''c1'') 5030 \<rparr>
   \<and> saved_id default_settings (scripted_services 0 Never post_ok update_ok) ada w0 = Some (JStr ''c1'')
   \<and> get_member (failure_body (JStr ''c1'') 5030) ''candidateId'' = Returned (JStr ''c1'')
   \<and> fst (recommend default_settings (scripted_services 2 fetch_ok post_ok update_ok) ada w0) =
     Answered \<lparr> status = 500, body = failure_body JNull 1080 \<rparr>
   \<and> saved_id default_settings (scripted_services 2 fetch_ok post_ok update_ok) ada w0 = None
   \<and> get_member (failure_body JNull 1080) ''candidateId'' = Returned JNull
   \<and> searchable_message (timeout_error ''Fetch careers'' 5000)"
proof -
  let ?timeout = "scripted_services 0 Never post_ok update_ok"
  let ?failing = "scripted_services 2 fetch_ok post_ok update_ok"
  let ?w2 = "\<lparr> now = 5030,
              events = [DbCall ''saveCandidate'' [JObj ada],
                        DbCall ''fetchCareers'' [JObj [(''sector'', JStr ''tech'')]]],
              candidate_object = ada \<rparr>"
  have valid: "validateCandidate (mappings default_settings) ada = []"
    by (simp add: run_defs)
  note timeout = failure_report_carries_candidateId
                   [OF valid, where sv = ?timeout and w = w0
                      and r = "\<lparr> status = 408, body = failure_body (JStr ''c1'') 5030 \<rparr>"
                      and err = "timeout_error ''Fetch careers'' 5000"
                      and candidateId = "JStr ''c1''" and w' = ?w2]
  note failing = failure_report_carries_candidateId
                   [OF valid, where sv = ?failing and w = w0
                      and r = "\<lparr> status = 500, body = failure_body JNull 1080 \<rparr>"]
  have r1: "fst (recommend default_settings ?timeout ada w0) =
              Answered \<lparr> status = 408, body = failure_body (JStr ''c1'') 5030 \<rparr>"
    by (simp add: run_fetch_timeout)
  have s1: "saved_id default_settings ?timeout ada w0 = Some (JStr ''c1'')"
    by (simp add: saved_id_def run_defs)
  have r2: "fst (recommend default_settings ?failing ada w0) =
              Answered \<lparr> status = 500, body = failure_body JNull 1080 \<rparr>"
    by (simp add: run_save_fails_twice)
  have s2: "saved_id default_settings ?failing ada w0 = None"
    by (simp add: saved_id_def run_defs)
  have t1: "recommend_try default_settings ?timeout (now w0) ada w0 =
              (Raised (timeout_error ''Fetch careers'' 5000), JStr ''c1'', ?w2)"
    by (simp add: run_defs)
  have m1: "searchable_message (timeout_error ''Fetch careers'' 5000)"
    by (simp add: searchable_message_def timeout_error_def)
  from timeout r1 have a1: "get_member (failure_body (JStr ''c1'') 5030) ''candidateId'' =
      Returned (case saved_id default_settings ?timeout ada w0 of Some i \<Rightarrow> i | None \<Rightarrow> JNull)"
    by simp
  from failing r2 have a2: "get_member (failure_body JNull 1080) ''candidateId'' =
      Returned (case saved_id default_settings ?failing ada w0 of Some i \<Rightarrow> i | None \<Rightarrow> JNull)"
    by simp
  from timeout t1 m1 have b1: "\<exists>r'. fst (recommend default_settings ?timeout ada w0) = Answered r' \<and> status r' \<noteq> 200"
    by simp
  show ?thesis
    using r1 s1 r2 s2 a1 a2 m1 b1 by simp
qed

theorem validation_failure_has_no_candidateId_counterexample:
  "reply_field (fst (recommend default_settings (scripted_services 0 fetch_ok post_ok update_ok) [] w0))
     ''success'' = Some (Returned (JBool False))
   \<and> reply_field (fst (recommend default_settings (scripted_services 0 fetch_ok post_ok update_ok) [] w0))
     ''candidateId'' = Some (Returned JUndefined)
   \<and> Returned JUndefined \<noteq> Returned JNull"
  by (simp only: run_empty_body)
     (simp add: reply_field_def validation_response_def get_field_def object_prototype_keys_def)

text \<open>
  Claim C7. Let the candidate pass validation, the storage module offer the required
  methods and the save step succeed. If \<^verbatim>\<open>fetchCareers\<close> then gives, within the timeout, a
  value that is not an array, the handler answers with the failure of the error
  \<^verbatim>\<open>Invalid careers response - expected array\<close>, status 500. The call of \<^verbatim>\<open>fetchCareers\<close> is
  the last event: nothing is posted to the scoring service and no recommendations are
  saved.
\<close>

theorem non_array_careers_is_contract_violation:
  assumes "validateCandidate (mappings st) candidateRaw = []"
    and "dbService sv = Some db"
    and "\<forall>m \<in> set (requiredMethods (mappings st)). db m"
    and "retryOperation (save_operation st sv) 2 1000 (w\<lparr>candidate_object := candidateRaw\<rparr>) =
           (Some (Returned candidateId), w1)"
    and "respond sv (events w1) (now w1)
           (DbCall (dbMethods_fetchCareers (mappings st))
              [JObj (careerFilter_of (mappings st) (candidate_object w1))]) =
         Settles d (Returned careers)"
    and "d \<le> DB_CONNECTION_TIMEOUT st"
    and "\<forall>cs. careers \<noteq> JArr cs"
  shows "recommend st sv candidateRaw w =
           (Answered (failure_response st 500 (JStr ''Invalid careers response - expected array'')
                        candidateId (now w1 + d - now w)),
            w1\<lparr>events := events w1 @ [DbCall (dbMethods_fetchCareers (mappings st))
                                         [JObj (careerFilter_of (mappings st) (candidate_object w1))]],
               candidate_object :=
                 touch sv (events w1)
                   (DbCall (dbMethods_fetchCareers (mappings st))
                      [JObj (careerFilter_of (mappings st) (candidate_object w1))])
                   (candidate_object w1),
               now := now w1 + d\<rparr>)
       \<and> statusCode_of (Error ''Invalid careers response - expected array'' None) = Inr 500
       \<and> posts (new_events w (snd (recommend st sv candidateRaw w))) = 0"
proof -
  let ?call = "DbCall (dbMethods_fetchCareers (mappings st))
                 [JObj (careerFilter_of (mappings st) (candidate_object w1))]"
  let ?w2 = "w1\<lparr>events := events w1 @ [?call],
               candidate_object := touch sv (events w1) ?call (candidate_object w1),
               now := now w1 + d\<rparr>"
  let ?err = "Error ''Invalid careers response - expected array'' None"
  have methods: "filter (\<lambda>method. \<not> db method) (requiredMethods (mappings st)) = []"
    using assms(3) by (rule methods_present)
  have fetch_op: "fetch_operation st sv w1 = (Some (Returned careers), ?w2)"
    using assms(5,6) by (simp add: fetch_operation_def invoke_def withTimeout_def)
  have fetch: "fetch_stage st sv (now w) candidateId w1 = (Raised ?err, ?w2)"
    using fetch_op assms(7) by (cases careers) (simp_all add: fetch_stage_def)
  have tr: "recommend_try st sv (now w) candidateRaw w = (Raised ?err, candidateId, ?w2)"
    using assms(2,4) methods fetch by (simp add: recommend_try_def Let_def)
  have s: "statusCode_of ?err = Inr 500"
    by (simp add: statusCode_of_def)
  have r: "recommend st sv candidateRaw w =
             (Answered (failure_response st 500 (JStr ''Invalid careers response - expected array'')
                          candidateId (now ?w2 - now w)), ?w2)"
    using recommend_Raised [OF assms(1) tr] s by (simp add: recommend_catch_def)
  from retry_save_world [OF assms(4)] obtain es where es:
    "events w1 = events w @ es" "calls_within st 2 0 0 0 es"
    unfolding stage_step_def by auto
  have "posts es = 0" using es(2) by (simp add: calls_within_def)
  then have p: "posts (new_events w ?w2) = 0"
    using es(1) by (simp add: new_events_def posts_def)
  show ?thesis using r p s by simp
qed

theorem non_array_careers_is_contract_violation_witness:
  "recommend default_settings (scripted_services 0 fetch_not_array post_ok update_ok) ada w0 =
     (Answered \<lparr> status = 500, body = failure_body (JStr ''c1'') 50 \<rparr>,
      \<lparr> now = 50,
        events = [DbCall ''saveCandidate'' [JObj ada],
                  DbCall ''fetchCareers'' [JObj [(''sector'', JStr ''tech'')]]],
        candidate_object = ada \<rparr>)"
proof -
  let ?sv = "scripted_services 0 fetch_not_array post_ok update_ok"
  let ?w1 = "\<lparr> now = 30, events = [DbCall ''saveCandidate'' [JObj ada]], candidate_object = ada \<rparr>"
  have valid: "validateCandidate (mappings default_settings) ada = []"
    by (simp add: run_defs)
  have db: "dbService ?sv = Some all_methods"
    by (simp add: scripted_services_def)
  have methods: "\<forall>m \<in> set (requiredMethods (mappings default_settings)). all_methods m"
    by (simp add: all_methods_def default_settings_def)
  have save: "retryOperation (save_operation default_settings ?sv) 2 1000 (w0\<lparr>candidate_object := ada\<rparr>) =
                (Some (Returned (JStr ''c1'')), ?w1)"
    by (simp add: run_defs)
  have fetch: "respond ?sv (events ?w1) (now ?w1)
                 (DbCall (dbMethods_fetchCareers (mappings default_settings))
                    [JObj (careerFilter_of (mappings default_settings) (candidate_object ?w1))]) =
               Settles 20 (Returned (JObj [(''rows'', JArr [])]))"
    by (simp add: run_defs)
  have "(20::nat) \<le> DB_CONNECTION_TIMEOUT default_settings"
    by (simp add: default_settings_def)
  from non_array_careers_is_contract_violation [OF valid db methods save fetch this]
  show ?thesis
    by (simp add: run_defs)
qed








end
